theory Spec2Isabelle
  imports Main
begin

section \<open>Python values\<close>

text \<open>
  The module \<^verbatim>\<open>chartit/validation.py\<close> takes loosely typed configuration: strings,
  lists, tuples, dicts, callables, Django query sets and aggregates. The values are
  modelled by one datatype. A dict is an association list in insertion order (the order
  in which \<^verbatim>\<open>items()\<close> iterates). The model is value-based: an object is its
  contents, so \<^verbatim>\<open>copy.deepcopy\<close> returns the value it is given, and the one mutation
  of caller-owned data (\<^verbatim>\<open>del term['_new_name']\<close>) is returned as the new state of
  the argument.
\<close>

type_synonym model_id = string

text \<open>What the module reads of \<^verbatim>\<open>source.query\<close>: the keys of its
  \<^verbatim>\<open>annotations\<close> and \<^verbatim>\<open>extra\<close> dicts.\<close>

record query =
  annotations :: "string list"
  extra :: "string list"

text \<open>A \<^verbatim>\<open>QuerySet\<close>: its \<^verbatim>\<open>model\<close>, its \<^verbatim>\<open>query\<close>, and its truth value
  (a query set is truthy when it has rows).\<close>

record queryset =
  qs_model :: model_id
  qs_query :: query
  qs_has_rows :: bool

datatype pyval =
    PNone
  | PBool bool
  | PInt int
  | PStr string
  | PList "pyval list"
  | PTuple "pyval list"
  | PDict "(pyval \<times> pyval) list"
  | PQuerySet queryset
  | PAggregate string
  | PFunc string
  | PObject string

text \<open>\<^verbatim>\<open>PAggregate\<close> is an instance of Django's \<^verbatim>\<open>Aggregate\<close>, \<^verbatim>\<open>PFunc\<close> any
  callable object, \<^verbatim>\<open>PObject\<close> any other object (truthy, hashable, not callable).\<close>

type_synonym dict = "(pyval \<times> pyval) list"

subsection \<open>Errors\<close>

text \<open>
  An argument of a message: a value formatted by the conversion in the format string,
  \<^verbatim>\<open>str(v)\<close>, or \<^verbatim>\<open>type(v)\<close>. The message of an \<^verbatim>\<open>APIInputError\<close> is kept as its
  format string and its arguments.
\<close>

datatype msgarg = Val pyval | StrOf pyval | TypeOf pyval

datatype error =
    APIInputError string "msgarg list"
  | KeyError pyval
  | AttributeError string
  | TypeError string
  | IndexError
  | FieldDoesNotExist string

text \<open>
  \<^verbatim>\<open>fmt % v\<close> for a format with one conversion, inside \<^verbatim>\<open>raise APIInputError(...)\<close>.
  Python takes a tuple on the right of \<^verbatim>\<open>%\<close> as the argument list: a tuple of one
  element formats that element, and a tuple of any other length raises \<^verbatim>\<open>TypeError\<close>
  before the \<^verbatim>\<open>APIInputError\<close> is built.
\<close>

definition raise_fmt :: "string \<Rightarrow> pyval \<Rightarrow> error" where
  "raise_fmt fmt v =
     (case v of
        PTuple [] \<Rightarrow> TypeError ''not enough arguments for format string''
      | PTuple [x] \<Rightarrow> APIInputError fmt [Val x]
      | PTuple (x # y # zs) \<Rightarrow>
          TypeError ''not all arguments converted during string formatting''
      | _ \<Rightarrow> APIInputError fmt [Val v])"

subsection \<open>Truth value, hashing, callable, equality\<close>

fun truthy :: "pyval \<Rightarrow> bool" where
  "truthy PNone = False"
| "truthy (PBool b) = b"
| "truthy (PInt i) = (i \<noteq> 0)"
| "truthy (PStr s) = (s \<noteq> [])"
| "truthy (PList xs) = (xs \<noteq> [])"
| "truthy (PTuple xs) = (xs \<noteq> [])"
| "truthy (PDict d) = (d \<noteq> [])"
| "truthy (PQuerySet q) = qs_has_rows q"
| "truthy (PAggregate a) = True"
| "truthy (PFunc f) = True"
| "truthy (PObject ob) = True"

fun callable :: "pyval \<Rightarrow> bool" where
  "callable (PFunc f) = True"
| "callable v = False"

fun hashable :: "pyval \<Rightarrow> bool" where
  "hashable (PList xs) = False"
| "hashable (PDict d) = False"
| "hashable (PTuple xs) = list_all hashable xs"
| "hashable v = True"

text \<open>Keys are compared with \<^verbatim>\<open>==\<close>, for which \<^verbatim>\<open>True == 1\<close> and
  \<^verbatim>\<open>False == 0\<close>: \<open>norm_key\<close> maps a hashable value to the representative of
  its class.\<close>

fun norm_key :: "pyval \<Rightarrow> pyval" where
  "norm_key (PBool b) = PInt (if b then 1 else 0)"
| "norm_key (PTuple xs) = PTuple (map norm_key xs)"
| "norm_key v = v"

definition key_eq :: "pyval \<Rightarrow> pyval \<Rightarrow> bool" where
  "key_eq a b = (norm_key a = norm_key b)"

subsection \<open>Dict operations\<close>

text \<open>\<^verbatim>\<open>d.get(k)\<close>: None when the key is missing.\<close>

fun lookup :: "dict \<Rightarrow> pyval \<Rightarrow> pyval option" where
  "lookup [] k = None"
| "lookup ((a, b) # d) k = (if key_eq a k then Some b else lookup d k)"

text \<open>\<^verbatim>\<open>d[k] = v\<close>: an existing key keeps its place, a new key goes last.\<close>

fun dict_set :: "dict \<Rightarrow> pyval \<Rightarrow> pyval \<Rightarrow> dict" where
  "dict_set [] k v = [(k, v)]"
| "dict_set ((a, b) # d) k v =
     (if key_eq a k then (a, v) # d else (a, b) # dict_set d k v)"

text \<open>\<^verbatim>\<open>del d[k]\<close>, for a key that is present.\<close>

definition dict_del :: "dict \<Rightarrow> pyval \<Rightarrow> dict" where
  "dict_del d k = filter (\<lambda>(a, b). \<not> key_eq a k) d"

text \<open>\<^verbatim>\<open>d.update(e)\<close> for a dict \<^verbatim>\<open>e\<close>.\<close>

fun dict_update :: "dict \<Rightarrow> dict \<Rightarrow> dict" where
  "dict_update d [] = d"
| "dict_update d ((k, v) # e) = dict_update (dict_set d k v) e"

text \<open>\<^verbatim>\<open>d.setdefault(k, v)\<close>, as a statement.\<close>

definition setdefault :: "dict \<Rightarrow> pyval \<Rightarrow> pyval \<Rightarrow> dict" where
  "setdefault d k v = (case lookup d k of None \<Rightarrow> dict_set d k v | Some _ \<Rightarrow> d)"

definition deepcopy :: "'a \<Rightarrow> 'a" where
  "deepcopy v = v"

text \<open>
  Python's \<^verbatim>\<open>==\<close>. Lists and tuples are compared element by element; two dicts are
  equal when they have the same number of keys and every key of the first has an equal
  value in the second, whatever the order; booleans are the integers 0 and 1.
\<close>

fun py_eq :: "pyval \<Rightarrow> pyval \<Rightarrow> bool"
  and py_eq_list :: "pyval list \<Rightarrow> pyval list \<Rightarrow> bool"
  and py_eq_items :: "dict \<Rightarrow> dict \<Rightarrow> bool" where
  "py_eq (PList xs) v = (case v of PList ys \<Rightarrow> py_eq_list xs ys | _ \<Rightarrow> False)"
| "py_eq (PTuple xs) v = (case v of PTuple ys \<Rightarrow> py_eq_list xs ys | _ \<Rightarrow> False)"
| "py_eq (PDict d) v =
     (case v of PDict e \<Rightarrow> length d = length e \<and> py_eq_items d e | _ \<Rightarrow> False)"
| "py_eq (PBool b) v =
     (case v of PBool c \<Rightarrow> b = c | PInt i \<Rightarrow> i = (if b then 1 else 0) | _ \<Rightarrow> False)"
| "py_eq (PInt i) v =
     (case v of PInt j \<Rightarrow> i = j | PBool c \<Rightarrow> i = (if c then 1 else 0) | _ \<Rightarrow> False)"
| "py_eq PNone v = (v = PNone)"
| "py_eq (PStr s) v = (v = PStr s)"
| "py_eq (PQuerySet q) v = (v = PQuerySet q)"
| "py_eq (PAggregate a) v = (v = PAggregate a)"
| "py_eq (PFunc f) v = (v = PFunc f)"
| "py_eq (PObject ob) v = (v = PObject ob)"
| "py_eq_list [] ys = (ys = [])"
| "py_eq_list (x # xs) ys =
     (case ys of [] \<Rightarrow> False | y # ys' \<Rightarrow> py_eq x y \<and> py_eq_list xs ys')"
| "py_eq_items [] e = True"
| "py_eq_items ((k, v) # d) e =
     ((case lookup e k of None \<Rightarrow> False | Some w \<Rightarrow> py_eq v w) \<and> py_eq_items d e)"

subsection \<open>Strings\<close>

text \<open>\<^verbatim>\<open>sep.join(xs)\<close> on a list of strings.\<close>

fun join :: "string \<Rightarrow> string list \<Rightarrow> string" where
  "join sep [] = []"
| "join sep [x] = x"
| "join sep (x # y # ys) = x @ sep @ join sep (y # ys)"

text \<open>\<^verbatim>\<open>s.split('__')\<close>: cut at each occurrence of two underscores, scanning from
  the left; the result is never empty.\<close>

fun split_dunder :: "string \<Rightarrow> string list" where
  "split_dunder [] = [[]]"
| "split_dunder [c] = [[c]]"
| "split_dunder (c # d # cs) =
     (if c = CHR ''_'' \<and> d = CHR ''_'' then [] # split_dunder cs
      else (case split_dunder (d # cs) of
              [] \<Rightarrow> [[c]]
            | w # ws \<Rightarrow> (c # w) # ws))"

text \<open>\<^verbatim>\<open>sep.join(keys)\<close> on arbitrary values: \<^verbatim>\<open>TypeError\<close> unless all are strings.\<close>

fun strings_of :: "pyval list \<Rightarrow> string list option" where
  "strings_of [] = Some []"
| "strings_of (PStr s # vs) = map_option ((#) s) (strings_of vs)"
| "strings_of (v # vs) = None"

definition join_vals :: "string \<Rightarrow> pyval list \<Rightarrow> error + string" where
  "join_vals sep vs =
     (case strings_of vs of
        None \<Rightarrow> Inl (TypeError ''sequence item: expected str instance'')
      | Some ss \<Rightarrow> Inr (join sep ss))"

section \<open>The model schema\<close>

text \<open>
  Django's model classes are an external collaborator. A model class is named by a
  \<open>model_id\<close>; a registry gives each class its \<^verbatim>\<open>_meta\<close>. Of a field the module
  reads the attributes below; \<^verbatim>\<open>attname\<close> is \<open>None\<close> when the field has no such
  attribute (\<^verbatim>\<open>hasattr\<close> is false), \<^verbatim>\<open>related_model\<close> is \<open>None\<close> when it is
  \<^verbatim>\<open>None\<close> in Python. The list \<^verbatim>\<open>get_fields()\<close> holds the fields of the model
  and the reverse relations that point to it; a reverse relation object has no
  \<^verbatim>\<open>verbose_name\<close> attribute, and \<^verbatim>\<open>verbose_name\<close> is \<open>None\<close> for it.
\<close>

record field =
  name :: string
  attname :: "string option"
  is_relation :: bool
  many_to_one :: bool
  related_model :: "model_id option"
  field_model :: model_id
  auto_created :: bool
  concrete :: bool
  verbose_name :: "string option"

text \<open>\<^verbatim>\<open>model._meta\<close>: \<^verbatim>\<open>meta.model\<close>, \<^verbatim>\<open>meta.concrete_model\<close>, the list
  \<^verbatim>\<open>meta.get_fields()\<close> and the method \<^verbatim>\<open>meta.get_field(name)\<close>, which raises
  \<^verbatim>\<open>FieldDoesNotExist\<close> where it is \<open>None\<close>.\<close>

record options =
  meta_model :: model_id
  concrete_model :: model_id
  get_fields :: "field list"
  get_field :: "string \<Rightarrow> field option"

type_synonym registry = "model_id \<Rightarrow> options"

text \<open>\<^verbatim>\<open>names.add(x)\<close> on a set kept as a list without duplicates. Python fixes no
  order for \<^verbatim>\<open>list(names)\<close>; the model lists the names in the order they were added.\<close>

definition set_add :: "string list \<Rightarrow> string \<Rightarrow> string list" where
  "set_add names x = (if x \<in> set names then names else names @ [x])"

text \<open>The loop of \<^verbatim>\<open>get_all_field_names\<close>.\<close>

fun field_names_loop :: "registry \<Rightarrow> options \<Rightarrow> field list \<Rightarrow> string list \<Rightarrow> string list" where
  "field_names_loop R meta [] names = names"
| "field_names_loop R meta (f # fs) names =
     (if is_relation f \<and> many_to_one f \<and> related_model f = None
      then field_names_loop R meta fs names
      else if field_model f \<noteq> meta_model meta \<and>
              concrete_model (R (field_model f)) = concrete_model meta
      then field_names_loop R meta fs names
      else field_names_loop R meta fs
             (let names' = set_add names (name f)
              in case attname f of None \<Rightarrow> names' | Some a \<Rightarrow> set_add names' a))"

definition get_all_field_names :: "registry \<Rightarrow> options \<Rightarrow> string list" where
  "get_all_field_names R meta = field_names_loop R meta (get_fields meta) []"

section \<open>The field-lookup validator\<close>

text \<open>
  \<^verbatim>\<open>_validate_field_lookup_term(model, term, query)\<close>. The model argument is \<open>None\<close>
  when the caller passes Python's \<^verbatim>\<open>None\<close> (the \<^verbatim>\<open>related_model\<close> of a field that
  is no relation), and \<^verbatim>\<open>model._meta\<close> then raises \<^verbatim>\<open>AttributeError\<close>. A term that
  is no string fails at the membership test when it is unhashable and at
  \<^verbatim>\<open>term.split\<close> otherwise. With one segment left the function returns
  \<^verbatim>\<open>get_field(terms[0]).verbose_name\<close>, which raises \<^verbatim>\<open>AttributeError\<close> on a
  field object without that attribute.
\<close>

function validate_field_lookup_term ::
  "registry \<Rightarrow> model_id option \<Rightarrow> pyval \<Rightarrow> query \<Rightarrow> error + pyval" where
  "validate_field_lookup_term R model term q =
     (case term of
        PStr s \<Rightarrow>
          if s \<in> set (annotations q) \<or> s \<in> set (extra q) then Inr term
          else
            (case split_dunder s of
               [] \<Rightarrow> Inl IndexError
             | t # rest \<Rightarrow>
                 (case model of
                    None \<Rightarrow> Inl (AttributeError ''_meta'')
                  | Some mid \<Rightarrow>
                      let model_fields = get_all_field_names R (R mid) in
                      if t \<notin> set model_fields
                      then Inl (APIInputError
                                  ''Field %r does not exist. Valid lookups are %s.''
                                  [Val (PStr t), Val (PStr (join '', '' model_fields))])
                      else
                        (case get_field (R mid) t of
                           None \<Rightarrow> Inl (FieldDoesNotExist t)
                         | Some fld \<Rightarrow>
                             (case rest of
                                [] \<Rightarrow>
                                  (case verbose_name fld of
                                     None \<Rightarrow> Inl (AttributeError ''verbose_name'')
                                   | Some label \<Rightarrow> Inr (PStr label))
                              | r # rs \<Rightarrow>
                                  validate_field_lookup_term R
                                    (if \<not> auto_created fld \<or> concrete fld
                                     then related_model fld else Some mid)
                                    (PStr (join ''__'' (r # rs))) q))))
      | _ \<Rightarrow>
          if hashable term then Inl (AttributeError ''split'')
          else Inl (TypeError ''unhashable type''))"
  by pat_completeness auto
termination
proof -
  have js: "join ''__'' (split_dunder s) = s" for s
  proof (induction s rule: split_dunder.induct)
    case 1
    show ?case by simp
  next
    case (2 c)
    show ?case by simp
  next
    case (3 c d cs)
    show ?case
    proof (cases "c = CHR ''_'' \<and> d = CHR ''_''")
      case True
      with 3 show ?thesis by (cases "split_dunder cs") auto
    next
      case False
      show ?thesis
      proof (cases "split_dunder (d # cs)")
        case Nil
        with 3 False show ?thesis by auto
      next
        case (Cons w ws)
        with 3 False show ?thesis by (cases ws) auto
      qed
    qed
  qed
  have len: "length (join ''__'' (r # rs)) < length s"
    if "split_dunder s = t # r # rs" for s t r rs
  proof -
    have "s = join ''__'' (t # r # rs)"
      using js [of s] that by simp
    then show ?thesis by simp
  qed
  show ?thesis
    by (relation "measure (\<lambda>(R, model, term, q). case term of PStr s \<Rightarrow> length s | _ \<Rightarrow> 0)")
       (auto simp: len)
qed

declare validate_field_lookup_term.simps [simp del]

section \<open>Validators of single options\<close>

text \<open>Sequencing of fallible steps: the first error ends the computation, as a raised
  exception does.\<close>

fun and_then :: "error + 'a \<Rightarrow> ('a \<Rightarrow> error + 'b) \<Rightarrow> error + 'b" where
  "and_then (Inl e) f = Inl e"
| "and_then (Inr x) f = f x"

text \<open>\<^verbatim>\<open>_validate_source\<close>: the source must be a \<^verbatim>\<open>QuerySet\<close>.\<close>

definition validate_source :: "pyval \<Rightarrow> error + queryset" where
  "validate_source source =
     (case source of
        PQuerySet qs \<Rightarrow> Inr qs
      | _ \<Rightarrow> Inl (APIInputError '''source' must be a QuerySet. Got %s of type %s instead.''
                    [Val source, TypeOf source]))"

text \<open>\<^verbatim>\<open>_validate_func\<close>: the function must be an \<^verbatim>\<open>Aggregate\<close>.\<close>

definition validate_func :: "pyval \<Rightarrow> error + unit" where
  "validate_func func =
     (case func of
        PAggregate a \<Rightarrow> Inr ()
      | _ \<Rightarrow> Inl (APIInputError
                    '''func' must an instance of django Aggregate. Got %s of type %s instead''
                    [Val func, TypeOf func]))"

text \<open>The loop \<^verbatim>\<open>for c in categories: field_aliases[c] = _validate_field_lookup_term(...)\<close>
  of \<^verbatim>\<open>_clean_categories\<close> and of \<^verbatim>\<open>_validate_legend_by\<close>.\<close>

fun field_aliases_loop :: "registry \<Rightarrow> queryset \<Rightarrow> pyval list \<Rightarrow> dict \<Rightarrow> error + dict" where
  "field_aliases_loop R source [] field_aliases = Inr field_aliases"
| "field_aliases_loop R source (c # cs) field_aliases =
     (case validate_field_lookup_term R (Some (qs_model source)) c (qs_query source) of
        Inl e \<Rightarrow> Inl e
      | Inr v \<Rightarrow> field_aliases_loop R source cs (dict_set field_aliases c v))"

definition clean_categories :: "registry \<Rightarrow> pyval \<Rightarrow> queryset \<Rightarrow> error + pyval \<times> dict" where
  "clean_categories R categories source =
     and_then
       (case categories of
          PStr s \<Rightarrow> Inr (PList [categories], [categories])
        | PTuple cs \<Rightarrow>
            if cs = []
            then Inl (raise_fmt
              '''categories' tuple or list must contain at least one valid model field. Got %s.''
              categories)
            else Inr (categories, cs)
        | PList cs \<Rightarrow>
            if cs = []
            then Inl (raise_fmt
              '''categories' tuple or list must contain at least one valid model field. Got %s.''
              categories)
            else Inr (categories, cs)
        | _ \<Rightarrow> Inl (APIInputError
              '''categories' must be one of the following types: basestring, tuple or list. Got %s of type %s instead.''
              [Val categories, TypeOf categories]))
       (\<lambda>(categories', cs).
          and_then (field_aliases_loop R source cs [])
            (\<lambda>field_aliases. Inr (categories', field_aliases)))"

definition validate_legend_by :: "registry \<Rightarrow> pyval \<Rightarrow> queryset \<Rightarrow> error + pyval \<times> dict" where
  "validate_legend_by R legend_by source =
     (let legend_by' = (if \<not> truthy legend_by then PList [] else legend_by)
      in case legend_by' of
           PList lgs \<Rightarrow>
             and_then (field_aliases_loop R source lgs [])
               (\<lambda>field_aliases. Inr (legend_by', field_aliases))
         | _ \<Rightarrow> Inl (APIInputError '''legend_by' must be a list'' []))"

text \<open>\<^verbatim>\<open>isinstance(v, int)\<close> holds of integers and of booleans.\<close>

definition validate_top_n_per_cat :: "pyval \<Rightarrow> error + unit" where
  "validate_top_n_per_cat top_n_per_cat =
     (case top_n_per_cat of
        PInt i \<Rightarrow> Inr ()
      | PBool b \<Rightarrow> Inr ()
      | _ \<Rightarrow> Inl (APIInputError '''top_n_per_cat' must be an int. Got %s of type %s instead.''
                    [Val top_n_per_cat, TypeOf top_n_per_cat]))"

text \<open>\<^verbatim>\<open>_merge_field_aliases\<close>: a copy of the legend aliases, updated with the category
  aliases, then with the explicit ones.\<close>

definition merge_field_aliases :: "dict \<Rightarrow> dict \<Rightarrow> dict \<Rightarrow> dict" where
  "merge_field_aliases fa_actual fa_cat fa_lgby =
     dict_update (dict_update fa_lgby fa_cat) fa_actual"

text \<open>The check \<^verbatim>\<open>if _key not in d.keys(): raise APIInputError(...)\<close> followed by
  \<^verbatim>\<open>d[_key]\<close>; \<open>shown\<close> is the value the message prints.\<close>

definition require_key :: "pyval \<Rightarrow> dict \<Rightarrow> string \<Rightarrow> error + pyval" where
  "require_key shown d key =
     (case lookup d (PStr key) of
        None \<Rightarrow> Inl (APIInputError ''%s is missing the '%s' key.'' [Val shown, Val (PStr key)])
      | Some v \<Rightarrow> Inr v)"

section \<open>Pivot data pool series\<close>

text \<open>
  The body of the inner loop of \<^verbatim>\<open>_convert_pdps_to_dict\<close> up to the insertion into
  \<^verbatim>\<open>series_dict\<close>: the options record built for one term. The three required keys are
  checked in the order \<^verbatim>\<open>source\<close>, \<^verbatim>\<open>func\<close>, \<^verbatim>\<open>categories\<close> before any of them
  is validated. An explicit \<^verbatim>\<open>field_aliases\<close> is taken to be a dict
  (\<^verbatim>\<open>fa.update\<close> of another value is reported as \<^verbatim>\<open>TypeError\<close>).
\<close>

definition pdps_term :: "registry \<Rightarrow> dict \<Rightarrow> pyval \<Rightarrow> error + dict" where
  "pdps_term R options tv =
     and_then
       (case tv of
          PAggregate a \<Rightarrow> Inr [(PStr ''func'', tv)]
        | PDict d \<Rightarrow> Inr d
        | _ \<Rightarrow> Inl (raise_fmt ''Expecting a dict or django Aggregate in place of: %s'' tv))
       (\<lambda>tvd.
     let opts = dict_update (deepcopy options) tvd in
     and_then (require_key (PDict opts) opts ''source'') (\<lambda>source.
     and_then (require_key (PDict opts) opts ''func'') (\<lambda>func.
     and_then (require_key (PDict opts) opts ''categories'') (\<lambda>categories.
     and_then (validate_source source) (\<lambda>qs.
     let opts = dict_set opts (PStr ''source'') (PQuerySet qs) in
     and_then (validate_func func) (\<lambda>_.
     and_then (clean_categories R categories qs) (\<lambda>(cats, fa_cat).
     let opts = dict_set opts (PStr ''categories'') cats in
     and_then
       (case lookup opts (PStr ''legend_by'') of
          Some legend_by \<Rightarrow> validate_legend_by R legend_by qs
        | None \<Rightarrow> Inr (PTuple [], []))
       (\<lambda>(lgby, fa_lgby).
     let opts = dict_set opts (PStr ''legend_by'') lgby in
     and_then
       (case lookup opts (PStr ''top_n_per_cat'') of
          Some top_n_per_cat \<Rightarrow>
            and_then (validate_top_n_per_cat top_n_per_cat) (\<lambda>_. Inr opts)
        | None \<Rightarrow> Inr (dict_set opts (PStr ''top_n_per_cat'') (PInt 0)))
       (\<lambda>opts.
     let fa_actual = (case lookup opts (PStr ''field_aliases'') of
                        Some fa \<Rightarrow> fa
                      | None \<Rightarrow> PDict [])
     in case fa_actual of
          PDict fa \<Rightarrow>
            Inr (dict_set opts (PStr ''field_aliases'')
                   (PDict (merge_field_aliases fa fa_cat fa_lgby)))
        | _ \<Rightarrow> Inl (TypeError ''update''))))))))))"

text \<open>The loop \<^verbatim>\<open>for tk, tv in terms.items()\<close>.\<close>

fun pdps_terms_loop :: "registry \<Rightarrow> dict \<Rightarrow> dict \<Rightarrow> dict \<Rightarrow> error + dict" where
  "pdps_terms_loop R options [] series_dict = Inr series_dict"
| "pdps_terms_loop R options ((tk, tv) # terms) series_dict =
     (case pdps_term R options tv of
        Inl e \<Rightarrow> Inl e
      | Inr opts \<Rightarrow> pdps_terms_loop R options terms (dict_set series_dict tk (PDict opts)))"

text \<open>The body of the outer loop \<^verbatim>\<open>for sd in series_list\<close>. An element without a
  \<^verbatim>\<open>keys\<close> method (anything but a dict) raises \<^verbatim>\<open>AttributeError\<close>.\<close>

definition pdps_series :: "registry \<Rightarrow> pyval \<Rightarrow> dict \<Rightarrow> error + dict" where
  "pdps_series R sd series_dict =
     (case sd of
        PDict sdd \<Rightarrow>
          and_then (require_key sd sdd ''options'') (\<lambda>options.
          and_then (require_key sd sdd ''terms'') (\<lambda>terms.
          case options of
            PDict od \<Rightarrow>
              (case terms of
                 PDict td \<Rightarrow>
                   if td = [] then Inl (APIInputError '''terms' cannot be empty.'' [])
                   else pdps_terms_loop R od td series_dict
               | _ \<Rightarrow> Inl (raise_fmt ''Expecting a dict in place of: %s'' terms))
          | _ \<Rightarrow> Inl (raise_fmt ''Expecting a dict in place of: %s'' options)))
      | _ \<Rightarrow> Inl (AttributeError ''keys''))"

fun pdps_series_loop :: "registry \<Rightarrow> pyval list \<Rightarrow> dict \<Rightarrow> error + dict" where
  "pdps_series_loop R [] series_dict = Inr series_dict"
| "pdps_series_loop R (sd # sds) series_dict =
     (case pdps_series R sd series_dict of
        Inl e \<Rightarrow> Inl e
      | Inr series_dict' \<Rightarrow> pdps_series_loop R sds series_dict')"

definition convert_pdps_to_dict :: "registry \<Rightarrow> pyval list \<Rightarrow> error + dict" where
  "convert_pdps_to_dict R series_list = pdps_series_loop R series_list []"

text \<open>\<^verbatim>\<open>clean_pdps(series)\<close>.\<close>

definition clean_pdps :: "registry \<Rightarrow> pyval \<Rightarrow> error + pyval" where
  "clean_pdps R series =
     (if \<not> truthy series then Inl (APIInputError '''series' cannot be empty.'' [])
      else case series of
             PList series_list \<Rightarrow>
               and_then (convert_pdps_to_dict R series_list) (\<lambda>d. Inr (PDict d))
           | _ \<Rightarrow> Inl (raise_fmt ''Expecting a list in place of: %s'' series))"

section \<open>Data pool series\<close>

text \<open>\<^verbatim>\<open>v[key]\<close> for a string key: \<^verbatim>\<open>KeyError\<close> on a dict without the key,
  \<^verbatim>\<open>TypeError\<close> on a value that is no dict.\<close>

definition subscript :: "pyval \<Rightarrow> string \<Rightarrow> error + pyval" where
  "subscript v key =
     (case v of
        PDict d \<Rightarrow> (case lookup d (PStr key) of
                      None \<Rightarrow> Inl (KeyError (PStr key))
                    | Some x \<Rightarrow> Inr x)
      | _ \<Rightarrow> Inl (TypeError ''subscript''))"

text \<open>
  The validations of \<^verbatim>\<open>_convert_dps_to_dict\<close> on \<^verbatim>\<open>sd_term\<close>, from the check of
  the \<^verbatim>\<open>source\<close> key to the last \<^verbatim>\<open>setdefault\<close>: the record as they leave it.
\<close>

definition dps_validate :: "registry \<Rightarrow> pyval \<Rightarrow> dict \<Rightarrow> error + dict" where
  "dps_validate R new_name sd_term =
     (case lookup sd_term (PStr ''source'') of
        None \<Rightarrow> Inl (raise_fmt ''%s is missing the 'source' key.'' (PDict sd_term))
      | Some source \<Rightarrow>
          and_then (validate_source source) (\<lambda>qs.
          let sd_term = dict_set sd_term (PStr ''source'') (PQuerySet qs);
              sd_term = setdefault sd_term (PStr ''field'') new_name
          in
          and_then (subscript (PDict sd_term) ''field'') (\<lambda>fld.
          and_then (validate_field_lookup_term R (Some (qs_model qs)) fld (qs_query qs))
            (\<lambda>fa.
          let fa = (if \<not> py_eq new_name fld then new_name else fa)
          in Inr (setdefault sd_term (PStr ''field_alias'') fa)))))"

text \<open>
  \<^verbatim>\<open>sd_term = series_dict[_new_name] = ...\<close> followed by the validations. The store
  raises \<^verbatim>\<open>TypeError\<close> on an unhashable name. The record is the same object as the
  entry of \<^verbatim>\<open>series_dict\<close>, so the entry holds the record as the validations leave
  it; when a validation fails no dict is returned at all.
\<close>

definition dps_store :: "registry \<Rightarrow> pyval \<Rightarrow> dict \<Rightarrow> dict \<Rightarrow> error + dict" where
  "dps_store R new_name sd_term series_dict =
     (if \<not> hashable new_name then Inl (TypeError ''unhashable type'')
      else case dps_validate R new_name sd_term of
             Inl e \<Rightarrow> Inl e
           | Inr sd_term' \<Rightarrow> Inr (dict_set series_dict new_name (PDict sd_term')))"

text \<open>
  The body of the loop \<^verbatim>\<open>for term in terms\<close>. The first component is the term as the
  call leaves it: a dict term loses its \<^verbatim>\<open>_new_name\<close> key, in the caller's own dict,
  before \<^verbatim>\<open>options\<close> is copied and updated with it.
\<close>

definition dps_term :: "registry \<Rightarrow> dict \<Rightarrow> pyval \<Rightarrow> dict \<Rightarrow> pyval \<times> (error + dict)" where
  "dps_term R options term series_dict =
     (case term of
        PStr s \<Rightarrow> (term, dps_store R term (deepcopy options) series_dict)
      | PDict t \<Rightarrow>
          (case lookup t (PStr ''_new_name'') of
             None \<Rightarrow> (term, Inl (KeyError (PStr ''_new_name'')))
           | Some new_name \<Rightarrow>
               let t' = dict_del t (PStr ''_new_name'');
                   opts = dict_update (deepcopy options) t'
               in (PDict t', dps_store R new_name opts series_dict))
      | _ \<Rightarrow> (term, Inl (APIInputError ''Expecting a basestring or dict in place of: %s''
                           [StrOf term])))"

fun dps_terms_loop ::
  "registry \<Rightarrow> dict \<Rightarrow> pyval list \<Rightarrow> dict \<Rightarrow> pyval list \<times> (error + dict)" where
  "dps_terms_loop R options [] series_dict = ([], Inr series_dict)"
| "dps_terms_loop R options (term # terms) series_dict =
     (case dps_term R options term series_dict of
        (term', Inl e) \<Rightarrow> (term' # terms, Inl e)
      | (term', Inr series_dict') \<Rightarrow>
          (case dps_terms_loop R options terms series_dict' of
             (terms', r) \<Rightarrow> (term' # terms', r)))"

text \<open>The body of the loop \<^verbatim>\<open>for sd in series_list\<close>; the first component is
  \<^verbatim>\<open>sd\<close> as the call leaves it.\<close>

definition dps_series :: "registry \<Rightarrow> pyval \<Rightarrow> dict \<Rightarrow> pyval \<times> (error + dict)" where
  "dps_series R sd series_dict =
     (case sd of
        PDict sdd \<Rightarrow>
          (case require_key sd sdd ''options'' of
             Inl e \<Rightarrow> (sd, Inl e)
           | Inr options \<Rightarrow>
          (case require_key sd sdd ''terms'' of
             Inl e \<Rightarrow> (sd, Inl e)
           | Inr terms \<Rightarrow>
          (case options of
             PDict od \<Rightarrow>
               (case terms of
                  PList ts \<Rightarrow>
                    if ts = [] then (sd, Inl (APIInputError '''terms' cannot be empty.'' []))
                    else (case dps_terms_loop R od ts series_dict of
                            (ts', r) \<Rightarrow> (PDict (dict_set sdd (PStr ''terms'') (PList ts')), r))
                | _ \<Rightarrow> (sd, Inl (raise_fmt ''Expecting a list in place of: %s'' terms)))
           | _ \<Rightarrow> (sd, Inl (raise_fmt ''Expecting a dict in place of: %s'' options)))))
      | _ \<Rightarrow> (sd, Inl (AttributeError ''keys'')))"

fun dps_series_loop ::
  "registry \<Rightarrow> pyval list \<Rightarrow> dict \<Rightarrow> pyval list \<times> (error + dict)" where
  "dps_series_loop R [] series_dict = ([], Inr series_dict)"
| "dps_series_loop R (sd # sds) series_dict =
     (case dps_series R sd series_dict of
        (sd', Inl e) \<Rightarrow> (sd' # sds, Inl e)
      | (sd', Inr series_dict') \<Rightarrow>
          (case dps_series_loop R sds series_dict' of
             (sds', r) \<Rightarrow> (sd' # sds', r)))"

definition convert_dps_to_dict :: "registry \<Rightarrow> pyval list \<Rightarrow> pyval list \<times> (error + dict)" where
  "convert_dps_to_dict R series_list = dps_series_loop R series_list []"

text \<open>\<^verbatim>\<open>clean_dps(series)\<close>: the argument as the call leaves it, and the result.\<close>

definition clean_dps :: "registry \<Rightarrow> pyval \<Rightarrow> pyval \<times> (error + pyval)" where
  "clean_dps R series =
     (if \<not> truthy series then (series, Inl (APIInputError '''series' cannot be empty.'' []))
      else case series of
             PList series_list \<Rightarrow>
               (case convert_dps_to_dict R series_list of
                  (series_list', r) \<Rightarrow>
                    (PList series_list', and_then r (\<lambda>d. Inr (PDict d))))
           | _ \<Rightarrow> (series, Inl (raise_fmt ''Expecting a list in place of: %s'' series)))"

section \<open>Series options of charts\<close>

text \<open>The data source of a chart: \<^verbatim>\<open>ds.series\<close>, the dict of the series of a data
  pool.\<close>

record datasource =
  series :: dict

text \<open>An \<^verbatim>\<open>APIInputError\<close> whose message ends with
  \<^verbatim>\<open>', '.join(ds.series.keys())\<close>; the join raises \<^verbatim>\<open>TypeError\<close> on a key that is
  no string.\<close>

definition allowed_values_error :: "string \<Rightarrow> pyval \<Rightarrow> datasource \<Rightarrow> error" where
  "allowed_values_error fmt v ds =
     (case join_vals '', '' (map fst (series ds)) of
        Inl e \<Rightarrow> e
      | Inr allowed \<Rightarrow> APIInputError fmt [Val v, Val (PStr allowed)])"

subsection \<open>Pivot charts\<close>

fun pcso_items_loop :: "dict \<Rightarrow> dict \<Rightarrow> dict \<Rightarrow> error + dict" where
  "pcso_items_loop options [] series_options_dict = Inr series_options_dict"
| "pcso_items_loop options ((tk, tv) # items) series_options_dict =
     (case tv of
        PDict tvd \<Rightarrow>
          pcso_items_loop options items
            (dict_set series_options_dict tk (PDict (dict_update (deepcopy options) tvd)))
      | _ \<Rightarrow> Inl (raise_fmt ''Expecting a dict in place of: %s'' tv))"

text \<open>One term of \<^verbatim>\<open>_convert_pcso_to_dict\<close>; a term that is neither a string nor a
  dict falls through both branches and adds nothing.\<close>

definition pcso_term :: "dict \<Rightarrow> pyval \<Rightarrow> dict \<Rightarrow> error + dict" where
  "pcso_term options term series_options_dict =
     (case term of
        PStr s \<Rightarrow> Inr (dict_set series_options_dict term (PDict (deepcopy options)))
      | PDict t \<Rightarrow> pcso_items_loop options t series_options_dict
      | _ \<Rightarrow> Inr series_options_dict)"

fun pcso_terms_loop :: "dict \<Rightarrow> pyval list \<Rightarrow> dict \<Rightarrow> error + dict" where
  "pcso_terms_loop options [] series_options_dict = Inr series_options_dict"
| "pcso_terms_loop options (term # terms) series_options_dict =
     (case pcso_term options term series_options_dict of
        Inl e \<Rightarrow> Inl e
      | Inr d \<Rightarrow> pcso_terms_loop options terms d)"

text \<open>\<^verbatim>\<open>try: x = stod[key] except KeyError: raise APIInputError(...)\<close>.\<close>

definition stod_key :: "pyval \<Rightarrow> string \<Rightarrow> string \<Rightarrow> error + pyval" where
  "stod_key stod key fmt =
     (case subscript stod key of
        Inl (KeyError k) \<Rightarrow> Inl (raise_fmt fmt stod)
      | r \<Rightarrow> r)"

definition pcso_stod :: "pyval \<Rightarrow> dict \<Rightarrow> error + dict" where
  "pcso_stod stod series_options_dict =
     and_then (stod_key stod ''options'' ''%s is missing the 'options' key.'') (\<lambda>options.
     case options of
       PDict od \<Rightarrow>
         and_then (stod_key stod ''terms'' ''%s is missing the 'terms' key.'') (\<lambda>terms.
         case terms of
           PList ts \<Rightarrow> pcso_terms_loop od ts series_options_dict
         | _ \<Rightarrow> Inl (raise_fmt ''Expecting a list in place of: %s'' terms))
     | _ \<Rightarrow> Inl (raise_fmt ''Expecting a dict in place of: %s'' options))"

fun pcso_stod_loop :: "pyval list \<Rightarrow> dict \<Rightarrow> error + dict" where
  "pcso_stod_loop [] series_options_dict = Inr series_options_dict"
| "pcso_stod_loop (stod # stods) series_options_dict =
     (case pcso_stod stod series_options_dict of
        Inl e \<Rightarrow> Inl e
      | Inr d \<Rightarrow> pcso_stod_loop stods d)"

definition convert_pcso_to_dict :: "pyval list \<Rightarrow> error + dict" where
  "convert_pcso_to_dict series_options = pcso_stod_loop series_options []"

text \<open>The loop of \<^verbatim>\<open>clean_pcso\<close> over the items of a dict.\<close>

fun pcso_check_loop :: "datasource \<Rightarrow> dict \<Rightarrow> error + unit" where
  "pcso_check_loop ds [] = Inr ()"
| "pcso_check_loop ds ((sok, sod) # items) =
     (if lookup (series ds) sok = None
      then Inl (allowed_values_error
        ''All the series terms must be present in the series dict of the datasource. Got %s. Allowed values are: %s''
        sok ds)
      else case sod of
             PDict d \<Rightarrow> pcso_check_loop ds items
           | _ \<Rightarrow> Inl (APIInputError
               ''All the series options must be of the type dict. Got %s of type %s instead.''
               [Val sod, TypeOf sod]))"

function clean_pcso :: "pyval \<Rightarrow> datasource \<Rightarrow> error + pyval" where
  "clean_pcso series_options ds =
     (case series_options of
        PDict so \<Rightarrow>
          (case pcso_check_loop ds so of
             Inl e \<Rightarrow> Inl e
           | Inr u \<Rightarrow> Inr series_options)
      | PList sl \<Rightarrow>
          (case convert_pcso_to_dict sl of
             Inl e \<Rightarrow> Inl e
           | Inr d \<Rightarrow>
               (case clean_pcso (PDict d) ds of
                  Inl e \<Rightarrow> Inl e
                | Inr r \<Rightarrow> Inr (PDict d)))
      | _ \<Rightarrow> Inl (raise_fmt ''Expecting a dict or list in place of: %s.'' series_options))"
  by pat_completeness auto
termination
  by (relation "measure (\<lambda>(so, ds). case so of PList sl \<Rightarrow> 1 | _ \<Rightarrow> 0)") auto

subsection \<open>Charts\<close>

text \<open>One y-term of \<^verbatim>\<open>_convert_cso_to_dict\<close>. Of a dict y-term the first key and the
  first value are used (\<^verbatim>\<open>IndexError\<close> when it is empty); the value is taken to be a
  dict (\<^verbatim>\<open>opts.update\<close> of another value is reported as \<^verbatim>\<open>TypeError\<close>).\<close>

definition cso_yterm :: "dict \<Rightarrow> pyval \<Rightarrow> pyval \<Rightarrow> dict \<Rightarrow> error + dict" where
  "cso_yterm options tk yterm series_options_dict =
     (case yterm of
        PStr s \<Rightarrow>
          Inr (dict_set series_options_dict yterm
                 (PDict (dict_set (deepcopy options) (PStr ''_x_axis_term'') tk)))
      | PDict y \<Rightarrow>
          (case y of
             [] \<Rightarrow> Inl IndexError
           | (k, v) # rest \<Rightarrow>
               (case v of
                  PDict vd \<Rightarrow>
                    Inr (dict_set series_options_dict k
                           (PDict (dict_set (dict_update (deepcopy options) vd)
                                     (PStr ''_x_axis_term'') tk)))
                | _ \<Rightarrow> Inl (TypeError ''update'')))
      | _ \<Rightarrow> Inl (raise_fmt ''Expecting a basestring or dict in place of: %s.'' yterm))"

fun cso_yterms_loop :: "dict \<Rightarrow> pyval \<Rightarrow> pyval list \<Rightarrow> dict \<Rightarrow> error + dict" where
  "cso_yterms_loop options tk [] series_options_dict = Inr series_options_dict"
| "cso_yterms_loop options tk (yterm # yterms) series_options_dict =
     (case cso_yterm options tk yterm series_options_dict of
        Inl e \<Rightarrow> Inl e
      | Inr d \<Rightarrow> cso_yterms_loop options tk yterms d)"

fun cso_terms_loop :: "dict \<Rightarrow> dict \<Rightarrow> dict \<Rightarrow> error + dict" where
  "cso_terms_loop options [] series_options_dict = Inr series_options_dict"
| "cso_terms_loop options ((tk, td) # terms) series_options_dict =
     (case td of
        PList yterms \<Rightarrow>
          (case cso_yterms_loop options tk yterms series_options_dict of
             Inl e \<Rightarrow> Inl e
           | Inr d \<Rightarrow> cso_terms_loop options terms d)
      | _ \<Rightarrow> Inl (raise_fmt ''Expecting a list instead of: %s'' td))"

definition cso_stod :: "pyval \<Rightarrow> dict \<Rightarrow> error + dict" where
  "cso_stod stod series_options_dict =
     and_then (stod_key stod ''options'' ''%s is missing the 'options' key.'') (\<lambda>options.
     case options of
       PDict od \<Rightarrow>
         and_then (stod_key stod ''terms'' ''%s is missing the 'terms' key.'') (\<lambda>terms.
         case terms of
           PDict td \<Rightarrow>
             if td = [] then Inl (APIInputError '''terms' dict cannot be empty.'' [])
             else cso_terms_loop od td series_options_dict
         | _ \<Rightarrow> Inl (raise_fmt ''Expecting a dict in place of: %s.'' terms))
     | _ \<Rightarrow> Inl (raise_fmt ''Expecting a dict in place of: %s'' options))"

fun cso_stod_loop :: "pyval list \<Rightarrow> dict \<Rightarrow> error + dict" where
  "cso_stod_loop [] series_options_dict = Inr series_options_dict"
| "cso_stod_loop (stod # stods) series_options_dict =
     (case cso_stod stod series_options_dict of
        Inl e \<Rightarrow> Inl e
      | Inr d \<Rightarrow> cso_stod_loop stods d)"

definition convert_cso_to_dict :: "pyval list \<Rightarrow> error + dict" where
  "convert_cso_to_dict series_options = cso_stod_loop series_options []"

text \<open>
  The body of the loop of \<^verbatim>\<open>clean_cso\<close> over the items \<^verbatim>\<open>sok, sod\<close> of a dict.
  The \<^verbatim>\<open>KeyError\<close> of \<^verbatim>\<open>sod['_x_axis_term']\<close> is caught and turned into an
  \<^verbatim>\<open>APIInputError\<close>; the membership test raises \<^verbatim>\<open>TypeError\<close> on an unhashable
  term.
\<close>

definition cso_entry :: "datasource \<Rightarrow> pyval \<Rightarrow> pyval \<Rightarrow> error + unit" where
  "cso_entry ds sok sod =
     (if lookup (series ds) sok = None
      then Inl (allowed_values_error
        ''%s is not one of the keys of the datasource series. Allowed values are: %s'' sok ds)
      else case sod of
        PDict sodd \<Rightarrow>
          (case lookup sodd (PStr ''_x_axis_term'') of
             None \<Rightarrow> Inl (raise_fmt ''Expecting a '_x_axis_term' for %s.'' sod)
           | Some x_axis_term \<Rightarrow>
               if \<not> hashable x_axis_term then Inl (TypeError ''unhashable type'')
               else if lookup (series ds) x_axis_term = None
               then Inl (allowed_values_error
                 ''%s is not one of the keys of the datasource series. Allowed values are: %s''
                 x_axis_term ds)
               else
                 (case (lookup (series ds) sok, lookup (series ds) x_axis_term) of
                    (Some s1, Some s2) \<Rightarrow>
                      and_then (subscript s1 ''_data'') (\<lambda>d1.
                      and_then (subscript s2 ''_data'') (\<lambda>d2.
                      if \<not> py_eq d1 d2
                      then Inl (APIInputError ''%s and %s do not belong to the same table.''
                                  [Val sok, Val x_axis_term])
                      else Inr ()))
                  | _ \<Rightarrow> Inl (KeyError sok)))
      | _ \<Rightarrow> Inl (APIInputError ''%s is of type: %s. Expecting a dict.''
                    [Val sod, TypeOf sod]))"

fun cso_check_loop :: "datasource \<Rightarrow> dict \<Rightarrow> error + unit" where
  "cso_check_loop ds [] = Inr ()"
| "cso_check_loop ds ((sok, sod) # items) =
     (case cso_entry ds sok sod of
        Inl e \<Rightarrow> Inl e
      | Inr u \<Rightarrow> cso_check_loop ds items)"

function clean_cso :: "pyval \<Rightarrow> datasource \<Rightarrow> error + pyval" where
  "clean_cso series_options ds =
     (case series_options of
        PDict so \<Rightarrow>
          (case cso_check_loop ds so of
             Inl e \<Rightarrow> Inl e
           | Inr u \<Rightarrow> Inr series_options)
      | PList sl \<Rightarrow>
          (case convert_cso_to_dict sl of
             Inl e \<Rightarrow> Inl e
           | Inr d \<Rightarrow>
               (case clean_cso (PDict d) ds of
                  Inl e \<Rightarrow> Inl e
                | Inr r \<Rightarrow> Inr (PDict d)))
      | _ \<Rightarrow> Inl (APIInputError
            '''series_options' must either be a dict or a list. Got %s of type %s instead.''
            [Val series_options, TypeOf series_options]))"
  by pat_completeness auto
termination
  by (relation "measure (\<lambda>(so, ds). case so of PList sl \<Rightarrow> 1 | _ \<Rightarrow> 0)") auto

section \<open>Sort and map functions\<close>

text \<open>\<^verbatim>\<open>clean_sortf_mapf_mts\<close>. The message of the arity error is built by
  \<^verbatim>\<open>"%r must have exactly three elements." % sortf_mapf_mts\<close> with the tuple itself
  on the right of \<^verbatim>\<open>%\<close>.\<close>

definition clean_sortf_mapf_mts :: "pyval \<Rightarrow> error + pyval" where
  "clean_sortf_mapf_mts sortf_mapf_mts =
     (if \<not> truthy sortf_mapf_mts then Inr (PTuple [PNone, PNone, PBool False])
      else case sortf_mapf_mts of
        PTuple xs \<Rightarrow>
          (case xs of
             [sortf, mapf, mts] \<Rightarrow>
               if truthy sortf \<and> \<not> callable sortf
               then Inl (APIInputError ''sortf must be callable or None.'' [])
               else if truthy mapf \<and> \<not> callable mapf
               then Inl (APIInputError ''mapf must be callable or None.'' [])
               else Inr (PTuple [sortf, mapf, PBool (truthy mts)])
           | _ \<Rightarrow> Inl (raise_fmt ''%r must have exactly three elements.'' sortf_mapf_mts))
      | _ \<Rightarrow> Inl (APIInputError ''sortf_mapf_mts must be a tuple!'' []))"

text \<open>The loop of \<^verbatim>\<open>clean_x_sortf_mapf_mts\<close>, appending to
  \<^verbatim>\<open>cleaned_x_s_m_mts\<close>.\<close>

fun x_sortf_mapf_mts_loop :: "pyval list \<Rightarrow> pyval list \<Rightarrow> error + pyval list" where
  "x_sortf_mapf_mts_loop [] cleaned = Inr cleaned"
| "x_sortf_mapf_mts_loop (x_s_m_mts # rest) cleaned =
     (case clean_sortf_mapf_mts x_s_m_mts of
        Inl e \<Rightarrow> Inl e
      | Inr c \<Rightarrow> x_sortf_mapf_mts_loop rest (cleaned @ [c]))"

definition clean_x_sortf_mapf_mts :: "pyval \<Rightarrow> error + pyval" where
  "clean_x_sortf_mapf_mts x_sortf_mapf_mts =
     (if \<not> truthy x_sortf_mapf_mts then Inr (PList [PTuple [PNone, PNone, PBool False]])
      else case x_sortf_mapf_mts of
        PTuple t \<Rightarrow>
          and_then (x_sortf_mapf_mts_loop [x_sortf_mapf_mts] []) (\<lambda>c. Inr (PList c))
      | PList l \<Rightarrow>
          and_then (x_sortf_mapf_mts_loop l []) (\<lambda>c. Inr (PList c))
      | _ \<Rightarrow> Inl (APIInputError ''x_sortf_mapf_mts must be a list of tuples!'' []))"

section \<open>Path resolution, as the specification words it\<close>

text \<open>
  The specification of the validator: the first segment must be among the field names
  reachable on the current model; with one segment left the path resolves to that
  field; with more segments left the walk descends into the related model of a direct
  or concrete field, stays on the current model for a reverse relation, and goes on with
  the remaining segments. \<open>resolve\<close> gives the final field of a path that resolves.
\<close>

fun resolve :: "registry \<Rightarrow> model_id \<Rightarrow> string list \<Rightarrow> field option" where
  "resolve R m [] = None"
| "resolve R m [t] =
     (if t \<in> set (get_all_field_names R (R m)) then get_field (R m) t else None)"
| "resolve R m (t # r # rs) =
     (if t \<in> set (get_all_field_names R (R m))
      then (case get_field (R m) t of
              None \<Rightarrow> None
            | Some fld \<Rightarrow>
                if \<not> auto_created fld \<or> concrete fld
                then (case related_model fld of
                        None \<Rightarrow> None
                      | Some m' \<Rightarrow> resolve R m' (r # rs))
                else resolve R m (r # rs))
      else None)"

text \<open>The fields that \<^verbatim>\<open>get_all_field_names\<close> does not skip.\<close>

definition listed :: "registry \<Rightarrow> options \<Rightarrow> field \<Rightarrow> bool" where
  "listed R meta f =
     (\<not> (is_relation f \<and> many_to_one f \<and> related_model f = None) \<and>
      \<not> (field_model f \<noteq> meta_model meta \<and>
         concrete_model (R (field_model f)) = concrete_model meta))"

section \<open>A small schema\<close>

text \<open>Two models for the examples: a book has a title and an author, an author has a
  name and, as the reverse relation of the author of a book, the relation \<^verbatim>\<open>book\<close>,
  an object made by Django and without a \<^verbatim>\<open>verbose_name\<close>. The query set
  \<open>books\<close> carries one annotation, \<^verbatim>\<open>num\<close>; the query set \<open>named_books\<close>
  carries the annotation \<^verbatim>\<open>name\<close>.\<close>

definition mk_field :: "string \<Rightarrow> string option \<Rightarrow> model_id \<Rightarrow> string \<Rightarrow> field" where
  "mk_field n a m v =
     \<lparr>name = n, attname = a, is_relation = False, many_to_one = False,
      related_model = None, field_model = m, auto_created = False, concrete = True,
      verbose_name = Some v\<rparr>"

definition books_of_author :: field where
  "books_of_author =
     \<lparr>name = ''book'', attname = None, is_relation = True, many_to_one = False,
      related_model = Some ''Book'', field_model = ''Author'', auto_created = True,
      concrete = False, verbose_name = None\<rparr>"

definition author_fields :: "field list" where
  "author_fields =
     [mk_field ''id'' (Some ''id'') ''Author'' ''ID'',
      mk_field ''name'' (Some ''name'') ''Author'' ''full name'',
      books_of_author]"

definition book_fields :: "field list" where
  "book_fields =
     [mk_field ''id'' (Some ''id'') ''Book'' ''ID'',
      mk_field ''title'' (Some ''title'') ''Book'' ''book title'',
      (mk_field ''author'' (Some ''author_id'') ''Book'' ''author'')
        \<lparr>is_relation := True, many_to_one := True, related_model := Some ''Author''\<rparr>]"

definition meta_of :: "model_id \<Rightarrow> field list \<Rightarrow> options" where
  "meta_of m fs =
     \<lparr>meta_model = m, concrete_model = m, get_fields = fs,
      get_field = (\<lambda>n. find (\<lambda>f. name f = n \<or> attname f = Some n) fs)\<rparr>"

definition library :: registry where
  "library m =
     (if m = ''Book'' then meta_of ''Book'' book_fields
      else meta_of ''Author'' author_fields)"

definition books :: queryset where
  "books =
     \<lparr>qs_model = ''Book'', qs_query = \<lparr>annotations = [''num''], extra = []\<rparr>,
      qs_has_rows = True\<rparr>"

definition named_books :: queryset where
  "named_books =
     \<lparr>qs_model = ''Book'', qs_query = \<lparr>annotations = [''name''], extra = []\<rparr>,
      qs_has_rows = True\<rparr>"

definition authors :: queryset where
  "authors =
     \<lparr>qs_model = ''Author'', qs_query = \<lparr>annotations = [], extra = []\<rparr>,
      qs_has_rows = True\<rparr>"

text \<open>A data pool series with the one term \<^verbatim>\<open>title\<close>, and the dict
  \<^verbatim>\<open>clean_dps\<close> makes of it.\<close>

definition title_series :: pyval where
  "title_series =
     PList [PDict [(PStr ''options'', PDict [(PStr ''source'', PQuerySet books)]),
                   (PStr ''terms'', PList [PStr ''title''])]]"

definition title_dict :: pyval where
  "title_dict =
     PDict [(PStr ''title'',
             PDict [(PStr ''source'', PQuerySet books), (PStr ''field'', PStr ''title''),
                    (PStr ''field_alias'', PStr ''book title'')])]"

text \<open>A pivot series counting books by title, and the dict \<^verbatim>\<open>clean_pdps\<close> makes
  of it.\<close>

definition count_series :: pyval where
  "count_series =
     PList [PDict [(PStr ''options'',
                    PDict [(PStr ''source'', PQuerySet books),
                           (PStr ''categories'', PStr ''title'')]),
                   (PStr ''terms'', PDict [(PStr ''cnt'', PAggregate ''Count'')])]]"

definition count_dict :: pyval where
  "count_dict =
     PDict [(PStr ''cnt'',
             PDict [(PStr ''source'', PQuerySet books),
                    (PStr ''categories'', PList [PStr ''title'']),
                    (PStr ''func'', PAggregate ''Count''),
                    (PStr ''legend_by'', PTuple []),
                    (PStr ''top_n_per_cat'', PInt 0),
                    (PStr ''field_aliases'', PDict [(PStr ''title'', PStr ''book title'')])])]"

text \<open>\<^verbatim>\<open>ds.series[k]['_data']\<close>, the data table of a series of the data source;
  \<open>None\<close> where the expression raises.\<close>

definition data_of :: "datasource \<Rightarrow> pyval \<Rightarrow> pyval option" where
  "data_of ds k =
     (case lookup (series ds) k of
        None \<Rightarrow> None
      | Some s \<Rightarrow> (case subscript s ''_data'' of Inl e \<Rightarrow> None | Inr d \<Rightarrow> Some d))"

text \<open>A data source with three series: \<^verbatim>\<open>month\<close> and \<^verbatim>\<open>temp\<close> come from one
  table, \<^verbatim>\<open>rain\<close> from another.\<close>

definition weather :: datasource where
  "weather =
     \<lparr>series =
        [(PStr ''month'', PDict [(PStr ''_data'', PList [PInt 1, PInt 2])]),
         (PStr ''temp'', PDict [(PStr ''_data'', PList [PInt 1, PInt 2])]),
         (PStr ''rain'', PDict [(PStr ''_data'', PList [PInt 7])])]\<rparr>"

text \<open>A data source with two series of different sources, the books and the authors,
  whose data are both empty.\<close>

definition two_sources :: datasource where
  "two_sources =
     \<lparr>series =
        [(PStr ''title'', PDict [(PStr ''source'', PQuerySet books), (PStr ''_data'', PList [])]),
         (PStr ''name'', PDict [(PStr ''source'', PQuerySet authors), (PStr ''_data'', PList [])])]\<rparr>"

text \<open>Series options in dict form that name \<^verbatim>\<open>month\<close> as the x-axis term.\<close>

definition by_month :: pyval where
  "by_month = PDict [(PStr ''_x_axis_term'', PStr ''month'')]"







section \<open>The caller's series after \<^verbatim>\<open>clean_dps\<close>\<close>






section \<open>The name of a data pool term\<close>


section \<open>Loops that add entries to a dict\<close>









section \<open>Basic facts\<close>

lemma key_eq_refl [simp]: "key_eq k k"
  by (simp add: key_eq_def)

lemma key_eq_PStr [simp]: "key_eq (PStr a) k = (k = PStr a)"
  by (cases k) (auto simp: key_eq_def)

lemma key_eq_PStr2 [simp]: "key_eq k (PStr a) = (k = PStr a)"
  by (cases k) (auto simp: key_eq_def)

lemma dict_set_not_empty [simp]: "dict_set d k v \<noteq> []"
  by (cases d) (auto split: if_splits)


lemma lookup_dict_del_same [simp]: "lookup (dict_del d k) k = None"
  by (induction d) (auto simp: dict_del_def)

lemma lookup_dict_del_other:
  "\<not> key_eq k k' \<Longrightarrow> lookup (dict_del d k) k' = lookup d k'"
  by (induction d) (auto simp: dict_del_def key_eq_def)






section \<open>Sort and map functions: properties\<close>

text \<open>
  Claim C8. \<^verbatim>\<open>clean_sortf_mapf_mts\<close> is to raise an input error for every tuple
  whose length is not three. On the pair \<^verbatim>\<open>(f, g)\<close> the code reaches the
  \<^verbatim>\<open>raise APIInputError("%r must have exactly three elements." % sortf_mapf_mts)\<close>,
  where the tuple of two elements is the argument list of a format with one conversion:
  building the message raises \<^verbatim>\<open>TypeError\<close>, and that is what the caller gets.
\<close>

theorem clean_sortf_mapf_mts_pair:
  "clean_sortf_mapf_mts (PTuple [PFunc ''f'', PFunc ''g'']) =
     Inl (TypeError ''not all arguments converted during string formatting'')"
  by (simp add: clean_sortf_mapf_mts_def raise_fmt_def)

text \<open>What the function does on the other inputs: the default triple for a falsy
  argument, the cleaned triple for a tuple of three whose first two elements are
  \<^verbatim>\<open>None\<close> or callable, and an input error for a truthy argument that is no tuple,
  for a tuple of one element, and for a truthy first element that is not callable.\<close>

lemma clean_sortf_mapf_mts_cases:
  "(\<not> truthy v \<longrightarrow> clean_sortf_mapf_mts v = Inr (PTuple [PNone, PNone, PBool False])) \<and>
   ((f = PNone \<or> callable f) \<and> (g = PNone \<or> callable g) \<longrightarrow>
      clean_sortf_mapf_mts (PTuple [f, g, x]) = Inr (PTuple [f, g, PBool (truthy x)])) \<and>
   (truthy v \<and> (\<forall>t. v \<noteq> PTuple t) \<longrightarrow>
      clean_sortf_mapf_mts v = Inl (APIInputError ''sortf_mapf_mts must be a tuple!'' [])) \<and>
   clean_sortf_mapf_mts (PTuple [a]) =
     Inl (APIInputError ''%r must have exactly three elements.'' [Val a]) \<and>
   (truthy f \<and> \<not> callable f \<longrightarrow>
      clean_sortf_mapf_mts (PTuple [f, g, x]) =
        Inl (APIInputError ''sortf must be callable or None.'' []))"
proof (intro conjI impI)
  assume "\<not> truthy v"
  then show "clean_sortf_mapf_mts v = Inr (PTuple [PNone, PNone, PBool False])"
    by (simp add: clean_sortf_mapf_mts_def)
next
  assume "(f = PNone \<or> callable f) \<and> (g = PNone \<or> callable g)"
  then show "clean_sortf_mapf_mts (PTuple [f, g, x]) = Inr (PTuple [f, g, PBool (truthy x)])"
    by (auto simp: clean_sortf_mapf_mts_def)
next
  assume "truthy v \<and> (\<forall>t. v \<noteq> PTuple t)"
  then show "clean_sortf_mapf_mts v = Inl (APIInputError ''sortf_mapf_mts must be a tuple!'' [])"
    by (cases v) (simp_all add: clean_sortf_mapf_mts_def)
next
  show "clean_sortf_mapf_mts (PTuple [a]) =
     Inl (APIInputError ''%r must have exactly three elements.'' [Val a])"
    by (simp add: clean_sortf_mapf_mts_def raise_fmt_def)
next
  assume "truthy f \<and> \<not> callable f"
  then show "clean_sortf_mapf_mts (PTuple [f, g, x]) =
        Inl (APIInputError ''sortf must be callable or None.'' [])"
    by (simp add: clean_sortf_mapf_mts_def)
qed

lemma x_sortf_mapf_mts_loop_Inr:
  "(x_sortf_mapf_mts_loop xs acc = Inr zs) =
   (\<exists>ys. zs = acc @ ys \<and> list_all2 (\<lambda>x y. clean_sortf_mapf_mts x = Inr y) xs ys)"
proof (induction xs arbitrary: acc)
  case Nil
  show ?case by auto
next
  case (Cons x xs)
  show ?case
  proof (cases "clean_sortf_mapf_mts x")
    case (Inl e)
    then show ?thesis by (auto simp: list_all2_Cons1)
  next
    case (Inr c)
    then show ?thesis by (auto simp: Cons.IH list_all2_Cons1)
  qed
qed

text \<open>
  Claim C9, amended. For every list that is not empty, \<^verbatim>\<open>clean_x_sortf_mapf_mts\<close>
  returns the list \<open>ys\<close> exactly when \<open>ys\<close> has the length of the input and its
  i-th element is what \<^verbatim>\<open>clean_sortf_mapf_mts\<close> returns on the i-th input element
  (so it returns such a list whenever every element cleans, and raises otherwise), and
  it returns nothing but a list. A single tuple is treated as the one-element list of
  that tuple.
\<close>

theorem clean_x_sortf_mapf_mts_elementwise:
  "(xs \<noteq> [] \<longrightarrow>
      (\<forall>ys. (clean_x_sortf_mapf_mts (PList xs) = Inr (PList ys)) =
            list_all2 (\<lambda>x y. clean_sortf_mapf_mts x = Inr y) xs ys) \<and>
      (\<forall>v. clean_x_sortf_mapf_mts (PList xs) = Inr v \<longrightarrow> (\<exists>ys. v = PList ys))) \<and>
   clean_x_sortf_mapf_mts (PTuple t) = clean_x_sortf_mapf_mts (PList [PTuple t])"
proof -
  have a: "(clean_x_sortf_mapf_mts (PList xs) = Inr (PList ys)) =
            list_all2 (\<lambda>x y. clean_sortf_mapf_mts x = Inr y) xs ys" if "xs \<noteq> []" for ys
  proof (cases "x_sortf_mapf_mts_loop xs []")
    case (Inl e)
    with that x_sortf_mapf_mts_loop_Inr [of xs "[]" ys] show ?thesis
      by (simp add: clean_x_sortf_mapf_mts_def)
  next
    case (Inr c)
    with that x_sortf_mapf_mts_loop_Inr [of xs "[]" ys] show ?thesis
      by (auto simp: clean_x_sortf_mapf_mts_def)
  qed
  have b: "\<exists>ys. v = PList ys" if "clean_x_sortf_mapf_mts (PList xs) = Inr v" "xs \<noteq> []" for v
    using that
    by (cases "x_sortf_mapf_mts_loop xs []") (auto simp: clean_x_sortf_mapf_mts_def)
  have c: "clean_x_sortf_mapf_mts (PTuple t) = clean_x_sortf_mapf_mts (PList [PTuple t])"
    by (cases t) (simp_all add: clean_x_sortf_mapf_mts_def clean_sortf_mapf_mts_def)
  from a b c show ?thesis by blast
qed

theorem clean_x_sortf_mapf_mts_elementwise_witness:
  "[PTuple [PFunc ''f'', PFunc ''g'', PInt 1], PNone] \<noteq> [] \<and>
   clean_x_sortf_mapf_mts (PList [PTuple [PFunc ''f'', PFunc ''g'', PInt 1], PNone]) =
     Inr (PList [PTuple [PFunc ''f'', PFunc ''g'', PBool True],
                 PTuple [PNone, PNone, PBool False]])"
  using clean_x_sortf_mapf_mts_elementwise
    [of "[PTuple [PFunc ''f'', PFunc ''g'', PInt 1], PNone]" "[]"]
  by (simp add: clean_sortf_mapf_mts_def)

text \<open>The claim as stated fails on the empty list: the result has one element, the
  default triple, and the input has none.\<close>

theorem clean_x_sortf_mapf_mts_empty_list:
  "clean_x_sortf_mapf_mts (PList []) = Inr (PList [PTuple [PNone, PNone, PBool False]]) \<and>
   length [PTuple [PNone, PNone, PBool False]] \<noteq> length ([] :: pyval list)"
  by (simp add: clean_x_sortf_mapf_mts_def)

section \<open>The top-level checks of the data pool cleaners\<close>

text \<open>
  Claim C7, amended. \<^verbatim>\<open>clean_dps([])\<close> and \<^verbatim>\<open>clean_pdps([])\<close> fail with the input
  error \<^verbatim>\<open>'series' cannot be empty.\<close>, and so does every other falsy argument
  (\<^verbatim>\<open>None\<close>, an empty dict, an empty string), because the emptiness test comes first.
  Every truthy argument that is neither a list nor a tuple fails with the input error
  \<^verbatim>\<open>Expecting a list in place of: %s\<close>, which shows the argument.
\<close>

theorem clean_series_container:
  "snd (clean_dps R (PList [])) = Inl (APIInputError '''series' cannot be empty.'' []) \<and>
   clean_pdps R (PList []) = Inl (APIInputError '''series' cannot be empty.'' []) \<and>
   (\<not> truthy v \<longrightarrow>
      snd (clean_dps R v) = Inl (APIInputError '''series' cannot be empty.'' []) \<and>
      clean_pdps R v = Inl (APIInputError '''series' cannot be empty.'' [])) \<and>
   (truthy v \<and> (\<forall>l. v \<noteq> PList l) \<and> (\<forall>t. v \<noteq> PTuple t) \<longrightarrow>
      snd (clean_dps R v) = Inl (APIInputError ''Expecting a list in place of: %s'' [Val v]) \<and>
      clean_pdps R v = Inl (APIInputError ''Expecting a list in place of: %s'' [Val v]))"
proof (cases v)
  case (PList l)
  then show ?thesis by (simp add: clean_dps_def clean_pdps_def)
next
  case (PTuple t)
  then show ?thesis by (simp add: clean_dps_def clean_pdps_def)
qed (simp_all add: clean_dps_def clean_pdps_def raise_fmt_def)

theorem clean_series_container_witness:
  "\<not> truthy (PDict []) \<and> truthy (PStr ''title'') \<and>
   snd (clean_dps library (PDict [])) = Inl (APIInputError '''series' cannot be empty.'' []) \<and>
   clean_pdps library (PStr ''title'') =
     Inl (APIInputError ''Expecting a list in place of: %s'' [Val (PStr ''title'')])"
  using clean_series_container [of library "PDict []"]
        clean_series_container [of library "PStr ''title''"]
  by simp

text \<open>The claim as stated fails on \<^verbatim>\<open>None\<close>, which is no list: the error is the
  one of the emptiness test and names no expected type.\<close>

theorem clean_series_none:
  "snd (clean_dps library PNone) = Inl (APIInputError '''series' cannot be empty.'' []) \<and>
   clean_pdps library PNone = Inl (APIInputError '''series' cannot be empty.'' [])"
  by (simp add: clean_dps_def clean_pdps_def)

section \<open>Errors that are no input errors\<close>

text \<open>
  Claim C3. Every malformed input of \<^verbatim>\<open>clean_dps\<close> is to fail with an
  \<^verbatim>\<open>APIInputError\<close>. A dict term without the \<^verbatim>\<open>_new_name\<close> key reaches
  \<^verbatim>\<open>term['_new_name']\<close>, which nothing guards: the caller gets \<^verbatim>\<open>KeyError\<close>.
\<close>

theorem clean_dps_term_without_new_name:
  "snd (clean_dps library
     (PList [PDict [(PStr ''options'', PDict [(PStr ''source'', PQuerySet books)]),
                    (PStr ''terms'', PList [PDict [(PStr ''field'', PStr ''title'')]])]]))
   = Inl (KeyError (PStr ''_new_name''))"
  by (simp add: clean_dps_def convert_dps_to_dict_def dps_series_def require_key_def
      dps_term_def)

text \<open>A series element that is no dict fails at \<^verbatim>\<open>sd.keys()\<close> with
  \<^verbatim>\<open>AttributeError\<close>, in both cleaners.\<close>

lemma clean_dps_element_not_dict:
  "snd (clean_dps R (PList [PStr ''title''])) = Inl (AttributeError ''keys'') \<and>
   clean_pdps R (PList [PStr ''title'']) = Inl (AttributeError ''keys'')"
  by (simp add: clean_dps_def convert_dps_to_dict_def dps_series_def clean_pdps_def
      convert_pdps_to_dict_def pdps_series_def)

section \<open>Empty terms\<close>

text \<open>
  Claim C4. An empty \<^verbatim>\<open>terms\<close> container inside a list element is to be rejected by
  each of the four converters. \<^verbatim>\<open>_convert_pcso_to_dict\<close> has no emptiness test: the
  loop over an empty \<^verbatim>\<open>terms\<close> list adds nothing, and \<^verbatim>\<open>clean_pcso\<close> returns the
  empty map, whatever the data source.
\<close>

theorem clean_pcso_empty_terms:
  "clean_pcso (PList [PDict [(PStr ''options'', PDict []), (PStr ''terms'', PList [])]]) ds
   = Inr (PDict [])"
  by (simp add: convert_pcso_to_dict_def pcso_stod_def stod_key_def subscript_def)

text \<open>The three sibling converters reject it.\<close>

lemma siblings_reject_empty_terms:
  "snd (clean_dps R (PList [PDict [(PStr ''options'', PDict []), (PStr ''terms'', PList [])]]))
     = Inl (APIInputError '''terms' cannot be empty.'' []) \<and>
   clean_pdps R (PList [PDict [(PStr ''options'', PDict []), (PStr ''terms'', PDict [])]])
     = Inl (APIInputError '''terms' cannot be empty.'' []) \<and>
   clean_cso (PList [PDict [(PStr ''options'', PDict []), (PStr ''terms'', PDict [])]]) ds
     = Inl (APIInputError '''terms' dict cannot be empty.'' [])"
  by (simp add: clean_dps_def convert_dps_to_dict_def dps_series_def clean_pdps_def
      convert_pdps_to_dict_def pdps_series_def require_key_def convert_cso_to_dict_def
      cso_stod_def stod_key_def subscript_def)

section \<open>The canonical dict fed back\<close>

lemma dps_store_not_empty: "dps_store R n t acc = Inr d \<Longrightarrow> d \<noteq> []"
  by (auto simp: dps_store_def split: if_splits sum.splits)

lemma dps_term_not_empty: "dps_term R od term acc = (t', Inr d) \<Longrightarrow> d \<noteq> []"
  by (auto simp: dps_term_def Let_def split: pyval.splits option.splits
      dest: dps_store_not_empty)

lemma dps_terms_loop_not_empty:
  "dps_terms_loop R od ts acc = (ts', Inr d) \<Longrightarrow> ts \<noteq> [] \<or> acc \<noteq> [] \<Longrightarrow> d \<noteq> []"
proof (induction ts arbitrary: acc ts')
  case Nil
  then show ?case by simp
next
  case (Cons t ts)
  obtain t' r where tr: "dps_term R od t acc = (t', r)" by (cases "dps_term R od t acc")
  show ?case
  proof (cases r)
    case (Inl e)
    with Cons.prems tr show ?thesis by simp
  next
    case (Inr acc')
    with tr have ne: "acc' \<noteq> []" by (auto dest: dps_term_not_empty)
    obtain ts'' r' where l: "dps_terms_loop R od ts acc' = (ts'', r')"
      by (cases "dps_terms_loop R od ts acc'")
    with Cons.prems tr Inr have "r' = Inr d" by simp
    with l ne Cons.IH [of acc' ts''] show ?thesis by simp
  qed
qed

lemma dps_series_not_empty: "dps_series R sd acc = (sd', Inr d) \<Longrightarrow> d \<noteq> []"
  by (auto simp: dps_series_def split: pyval.splits sum.splits if_splits prod.splits
      dest: dps_terms_loop_not_empty)

lemma dps_series_loop_not_empty:
  "dps_series_loop R sds acc = (sds', Inr d) \<Longrightarrow> sds \<noteq> [] \<or> acc \<noteq> [] \<Longrightarrow> d \<noteq> []"
proof (induction sds arbitrary: acc sds')
  case Nil
  then show ?case by simp
next
  case (Cons s sds)
  obtain s' r where sr: "dps_series R s acc = (s', r)" by (cases "dps_series R s acc")
  show ?case
  proof (cases r)
    case (Inl e)
    with Cons.prems sr show ?thesis by simp
  next
    case (Inr acc')
    with sr have ne: "acc' \<noteq> []" by (auto dest: dps_series_not_empty)
    obtain sds'' r' where l: "dps_series_loop R sds acc' = (sds'', r')"
      by (cases "dps_series_loop R sds acc'")
    with Cons.prems sr Inr have "r' = Inr d" by simp
    with l ne Cons.IH [of acc' sds''] show ?thesis by simp
  qed
qed

lemma clean_dps_result:
  assumes "snd (clean_dps R inp) = Inr v"
  shows "\<exists>d. v = PDict d \<and> d \<noteq> []"
proof -
  from assms obtain sl where s: "inp = PList sl" and ne: "sl \<noteq> []"
    by (cases inp) (auto simp: clean_dps_def split: if_splits)
  obtain sl' r where c: "convert_dps_to_dict R sl = (sl', r)"
    by (cases "convert_dps_to_dict R sl")
  with assms s ne obtain d where r: "r = Inr d" and v: "v = PDict d"
    by (cases r) (auto simp: clean_dps_def)
  from c r ne have "d \<noteq> []"
    using dps_series_loop_not_empty [of R sl "[]" sl' d]
    by (simp add: convert_dps_to_dict_def)
  with v show ?thesis by simp
qed

lemma pdps_terms_loop_not_empty:
  "pdps_terms_loop R od td acc = Inr d \<Longrightarrow> td \<noteq> [] \<or> acc \<noteq> [] \<Longrightarrow> d \<noteq> []"
proof (induction td arbitrary: acc)
  case Nil
  then show ?case by simp
next
  case (Cons t td)
  obtain tk tv where t: "t = (tk, tv)" by (cases t)
  with Cons.prems obtain opts where "pdps_term R od tv = Inr opts"
    and "pdps_terms_loop R od td (dict_set acc tk (PDict opts)) = Inr d"
    by (cases "pdps_term R od tv") auto
  with Cons.IH [of "dict_set acc tk (PDict opts)"] show ?case by simp
qed

lemma pdps_series_not_empty: "pdps_series R sd acc = Inr d \<Longrightarrow> d \<noteq> []"
  by (auto simp: pdps_series_def require_key_def split: pyval.splits option.splits if_splits
      dest: pdps_terms_loop_not_empty)

lemma pdps_series_loop_not_empty:
  "pdps_series_loop R sds acc = Inr d \<Longrightarrow> sds \<noteq> [] \<or> acc \<noteq> [] \<Longrightarrow> d \<noteq> []"
proof (induction sds arbitrary: acc)
  case Nil
  then show ?case by simp
next
  case (Cons s sds)
  from Cons.prems obtain acc' where a: "pdps_series R s acc = Inr acc'"
    and l: "pdps_series_loop R sds acc' = Inr d"
    by (cases "pdps_series R s acc") auto
  from a have "acc' \<noteq> []" by (rule pdps_series_not_empty)
  with l Cons.IH [of acc'] show ?case by simp
qed

lemma clean_pdps_result:
  assumes "clean_pdps R inp = Inr v"
  shows "\<exists>d. v = PDict d \<and> d \<noteq> []"
proof -
  from assms obtain sl where s: "inp = PList sl" and ne: "sl \<noteq> []"
    by (cases inp) (auto simp: clean_pdps_def split: if_splits)
  with assms obtain d where r: "convert_pdps_to_dict R sl = Inr d" and v: "v = PDict d"
    by (cases "convert_pdps_to_dict R sl") (auto simp: clean_pdps_def)
  from r ne have "d \<noteq> []"
    using pdps_series_loop_not_empty [of R sl "[]" d]
    by (simp add: convert_pdps_to_dict_def)
  with v show ?thesis by simp
qed

text \<open>
  Claim C2, amended. The dict that \<^verbatim>\<open>clean_dps\<close> (respectively
  \<^verbatim>\<open>clean_pdps\<close>) returns on a valid input is not accepted by the same function:
  both take a list only, and the dict, which is never empty, is rejected with the input
  error \<^verbatim>\<open>Expecting a list in place of: %s\<close> showing the dict; the dict itself is
  left as it is.
\<close>

theorem clean_canonical_dict_rejected:
  "(snd (clean_dps R inp) = Inr v \<longrightarrow>
      clean_dps R v = (v, Inl (APIInputError ''Expecting a list in place of: %s'' [Val v]))) \<and>
   (clean_pdps R inp = Inr v \<longrightarrow>
      clean_pdps R v = Inl (APIInputError ''Expecting a list in place of: %s'' [Val v]))"
proof (intro conjI impI)
  assume "snd (clean_dps R inp) = Inr v"
  then obtain d where "v = PDict d" "d \<noteq> []" using clean_dps_result by blast
  then show "clean_dps R v = (v, Inl (APIInputError ''Expecting a list in place of: %s'' [Val v]))"
    by (simp add: clean_dps_def raise_fmt_def)
next
  assume "clean_pdps R inp = Inr v"
  then obtain d where "v = PDict d" "d \<noteq> []" using clean_pdps_result by blast
  then show "clean_pdps R v = Inl (APIInputError ''Expecting a list in place of: %s'' [Val v])"
    by (simp add: clean_pdps_def raise_fmt_def)
qed

theorem clean_canonical_dict_rejected_witness:
  "snd (clean_dps library title_series) = Inr title_dict \<and>
   clean_dps library title_dict =
     (title_dict, Inl (APIInputError ''Expecting a list in place of: %s'' [Val title_dict])) \<and>
   clean_pdps library count_series = Inr count_dict \<and>
   clean_pdps library count_dict =
     Inl (APIInputError ''Expecting a list in place of: %s'' [Val count_dict])"
proof -
  have a: "snd (clean_dps library title_series) = Inr title_dict"
    by code_simp
  have b: "clean_pdps library count_series = Inr count_dict"
    by code_simp
  from a b clean_canonical_dict_rejected [of library title_series title_dict]
    clean_canonical_dict_rejected [of library count_series count_dict]
  show ?thesis by simp
qed

text \<open>The claim as stated fails on the series \<open>title_series\<close>: the dict made of
  it, fed back, gives an error and not the dict.\<close>

theorem clean_dps_not_idempotent:
  "snd (clean_dps library title_series) = Inr title_dict \<and>
   snd (clean_dps library title_dict) =
     Inl (APIInputError ''Expecting a list in place of: %s'' [Val title_dict]) \<and>
   clean_pdps library count_series = Inr count_dict \<and>
   clean_pdps library count_dict =
     Inl (APIInputError ''Expecting a list in place of: %s'' [Val count_dict])"
  by code_simp

section \<open>The x-axis term of chart series options\<close>

lemma cso_check_loop_Inr:
  "(cso_check_loop ds so = Inr u) = (\<forall>(sok, sod)\<in>set so. cso_entry ds sok sod = Inr ())"
  by (induction so) (auto split: sum.splits)

lemma cso_check_loop_first_error:
  "\<forall>(k, v)\<in>set pre. cso_entry ds k v = Inr () \<Longrightarrow> cso_entry ds sok sod = Inl e \<Longrightarrow>
   cso_check_loop ds (pre @ (sok, sod) # post) = Inl e"
  by (induction pre) auto

lemma cso_entry_accepts:
  assumes "cso_entry ds sok sod = Inr ()"
  shows "\<exists>sodd x d1 d2. sod = PDict sodd \<and> lookup sodd (PStr ''_x_axis_term'') = Some x \<and>
           lookup (series ds) x \<noteq> None \<and> data_of ds sok = Some d1 \<and>
           data_of ds x = Some d2 \<and> py_eq d1 d2"
  using assms
  by (auto simp: cso_entry_def data_of_def split: if_splits pyval.splits option.splits sum.splits)

lemma cso_entry_tables:
  assumes "sod = PDict sodd" "lookup sodd (PStr ''_x_axis_term'') = Some x" "hashable x"
    "data_of ds sok = Some d1" "data_of ds x = Some d2"
  shows "cso_entry ds sok sod =
     (if py_eq d1 d2 then Inr ()
      else Inl (APIInputError ''%s and %s do not belong to the same table.'' [Val sok, Val x]))"
  using assms
  by (auto simp: cso_entry_def data_of_def split: option.splits sum.splits)

text \<open>
  Claim C5, amended. For a dict of series options \<^verbatim>\<open>clean_cso\<close> returns the dict
  itself, and it does so exactly when every entry passes the checks of the loop body. An
  entry that passes carries an \<^verbatim>\<open>_x_axis_term\<close> that is a key of the series of the
  data source (any key, that of the entry itself too), and the \<^verbatim>\<open>_data\<close> of the
  two series are equal under Python's \<^verbatim>\<open>==\<close> (the sources of the series are not
  looked at). For an entry that carries such a term, with both \<^verbatim>\<open>_data\<close> there,
  the body raises the mismatch error exactly when the two \<^verbatim>\<open>_data\<close> differ and
  passes when they are equal; when all the other entries pass, the call raises that
  error, or returns the dict. An entry of a known series without the term raises the input
  error asking for it. The error of the first entry that fails is the error of the call.
\<close>

theorem clean_cso_x_axis_term:
  "((clean_cso (PDict so) ds = Inr r) =
      (r = PDict so \<and> (\<forall>(sok, sod)\<in>set so. cso_entry ds sok sod = Inr ()))) \<and>
   (cso_entry ds sok sod = Inr () \<longrightarrow>
      (\<exists>sodd x d1 d2. sod = PDict sodd \<and> lookup sodd (PStr ''_x_axis_term'') = Some x \<and>
         lookup (series ds) x \<noteq> None \<and> data_of ds sok = Some d1 \<and>
         data_of ds x = Some d2 \<and> py_eq d1 d2)) \<and>
   (sod = PDict sodd \<and> lookup sodd (PStr ''_x_axis_term'') = Some x \<and> hashable x \<and>
    data_of ds sok = Some d1 \<and> data_of ds x = Some d2 \<longrightarrow>
      cso_entry ds sok sod =
        (if py_eq d1 d2 then Inr ()
         else Inl (APIInputError ''%s and %s do not belong to the same table.''
                     [Val sok, Val x]))) \<and>
   (lookup (series ds) sok \<noteq> None \<and> sod = PDict sodd \<and>
    lookup sodd (PStr ''_x_axis_term'') = None \<longrightarrow>
      cso_entry ds sok sod = Inl (APIInputError ''Expecting a '_x_axis_term' for %s.'' [Val sod])) \<and>
   ((\<forall>(k, v)\<in>set pre. cso_entry ds k v = Inr ()) \<and> cso_entry ds sok sod = Inl e \<longrightarrow>
      clean_cso (PDict (pre @ (sok, sod) # post)) ds = Inl e) \<and>
   ((\<forall>(k, v)\<in>set pre. cso_entry ds k v = Inr ()) \<and>
    (\<forall>(k, v)\<in>set post. cso_entry ds k v = Inr ()) \<and>
    sod = PDict sodd \<and> lookup sodd (PStr ''_x_axis_term'') = Some x \<and> hashable x \<and>
    data_of ds sok = Some d1 \<and> data_of ds x = Some d2 \<longrightarrow>
      clean_cso (PDict (pre @ (sok, sod) # post)) ds =
        (if py_eq d1 d2 then Inr (PDict (pre @ (sok, sod) # post))
         else Inl (APIInputError ''%s and %s do not belong to the same table.''
                     [Val sok, Val x])))"
proof (intro conjI impI)
  show "(clean_cso (PDict so) ds = Inr r) =
      (r = PDict so \<and> (\<forall>(sok, sod)\<in>set so. cso_entry ds sok sod = Inr ()))"
    using cso_check_loop_Inr [of ds so "()"]
    by (cases "cso_check_loop ds so") auto
next
  assume "cso_entry ds sok sod = Inr ()"
  then show "\<exists>sodd x d1 d2. sod = PDict sodd \<and> lookup sodd (PStr ''_x_axis_term'') = Some x \<and>
         lookup (series ds) x \<noteq> None \<and> data_of ds sok = Some d1 \<and>
         data_of ds x = Some d2 \<and> py_eq d1 d2"
    by (rule cso_entry_accepts)
next
  assume "sod = PDict sodd \<and> lookup sodd (PStr ''_x_axis_term'') = Some x \<and> hashable x \<and>
    data_of ds sok = Some d1 \<and> data_of ds x = Some d2"
  then show "cso_entry ds sok sod =
        (if py_eq d1 d2 then Inr ()
         else Inl (APIInputError ''%s and %s do not belong to the same table.''
                     [Val sok, Val x]))"
    using cso_entry_tables by blast
next
  assume "lookup (series ds) sok \<noteq> None \<and> sod = PDict sodd \<and>
    lookup sodd (PStr ''_x_axis_term'') = None"
  then show "cso_entry ds sok sod = Inl (APIInputError ''Expecting a '_x_axis_term' for %s.'' [Val sod])"
    by (auto simp: cso_entry_def raise_fmt_def)
next
  assume "(\<forall>(k, v)\<in>set pre. cso_entry ds k v = Inr ()) \<and> cso_entry ds sok sod = Inl e"
  then show "clean_cso (PDict (pre @ (sok, sod) # post)) ds = Inl e"
    using cso_check_loop_first_error [of pre ds sok sod e post] by simp
next
  assume h: "(\<forall>(k, v)\<in>set pre. cso_entry ds k v = Inr ()) \<and>
    (\<forall>(k, v)\<in>set post. cso_entry ds k v = Inr ()) \<and>
    sod = PDict sodd \<and> lookup sodd (PStr ''_x_axis_term'') = Some x \<and> hashable x \<and>
    data_of ds sok = Some d1 \<and> data_of ds x = Some d2"
  then have ent: "cso_entry ds sok sod =
     (if py_eq d1 d2 then Inr ()
      else Inl (APIInputError ''%s and %s do not belong to the same table.'' [Val sok, Val x]))"
    using cso_entry_tables [of sod sodd x ds sok d1 d2] by blast
  show "clean_cso (PDict (pre @ (sok, sod) # post)) ds =
        (if py_eq d1 d2 then Inr (PDict (pre @ (sok, sod) # post))
         else Inl (APIInputError ''%s and %s do not belong to the same table.''
                     [Val sok, Val x]))"
  proof (cases "py_eq d1 d2")
    case True
    with ent h have "\<forall>(k, v)\<in>set (pre @ (sok, sod) # post). cso_entry ds k v = Inr ()"
      by auto
    then have "cso_check_loop ds (pre @ (sok, sod) # post) = Inr ()"
      by (simp only: cso_check_loop_Inr)
    with True show ?thesis by simp
  next
    case False
    with ent h cso_check_loop_first_error [of pre ds sok sod _ post] show ?thesis
      by simp
  qed
qed

theorem clean_cso_x_axis_term_witness:
  "clean_cso (PDict [(PStr ''temp'', by_month)]) weather =
     Inr (PDict [(PStr ''temp'', by_month)]) \<and>
   cso_entry weather (PStr ''rain'') by_month =
     Inl (APIInputError ''%s and %s do not belong to the same table.''
            [Val (PStr ''rain''), Val (PStr ''month'')]) \<and>
   clean_cso (PDict [(PStr ''temp'', by_month), (PStr ''rain'', by_month)]) weather =
     Inl (APIInputError ''%s and %s do not belong to the same table.''
            [Val (PStr ''rain''), Val (PStr ''month'')]) \<and>
   cso_entry weather (PStr ''temp'') (PDict []) =
     Inl (APIInputError ''Expecting a '_x_axis_term' for %s.'' [Val (PDict [])]) \<and>
   clean_cso (PDict [(PStr ''temp'', by_month), (PStr ''month'', by_month)]) weather =
     Inr (PDict [(PStr ''temp'', by_month), (PStr ''month'', by_month)])"
proof -
  have month: "data_of weather (PStr ''month'') = Some (PList [PInt 1, PInt 2])"
    by code_simp
  have temp: "data_of weather (PStr ''temp'') = Some (PList [PInt 1, PInt 2])"
    by code_simp
  have rain: "data_of weather (PStr ''rain'') = Some (PList [PInt 7])"
    by code_simp
  have known: "lookup (series weather) (PStr ''temp'') \<noteq> None"
    by code_simp
  have x: "lookup [(PStr ''_x_axis_term'', PStr ''month'')] (PStr ''_x_axis_term'') =
             Some (PStr ''month'')"
    by simp
  have t: "cso_entry weather (PStr ''temp'') by_month = Inr ()"
    using clean_cso_x_axis_term
      [where ds = weather and sok = "PStr ''temp''" and sod = by_month
         and sodd = "[(PStr ''_x_axis_term'', PStr ''month'')]" and x = "PStr ''month''"
         and ?d1.0 = "PList [PInt 1, PInt 2]" and ?d2.0 = "PList [PInt 1, PInt 2]"]
      month temp x
    by (simp add: by_month_def)
  have r: "cso_entry weather (PStr ''rain'') by_month =
     Inl (APIInputError ''%s and %s do not belong to the same table.''
            [Val (PStr ''rain''), Val (PStr ''month'')])"
    using clean_cso_x_axis_term
      [where ds = weather and sok = "PStr ''rain''" and sod = by_month
         and sodd = "[(PStr ''_x_axis_term'', PStr ''month'')]" and x = "PStr ''month''"
         and ?d1.0 = "PList [PInt 7]" and ?d2.0 = "PList [PInt 1, PInt 2]"]
      month rain x
    by (simp add: by_month_def)
  have one: "clean_cso (PDict [(PStr ''temp'', by_month)]) weather =
     Inr (PDict [(PStr ''temp'', by_month)])"
    using clean_cso_x_axis_term
      [where ds = weather and so = "[(PStr ''temp'', by_month)]"
         and r = "PDict [(PStr ''temp'', by_month)]"] t
    by simp
  have two: "clean_cso (PDict [(PStr ''temp'', by_month), (PStr ''rain'', by_month)]) weather =
     Inl (APIInputError ''%s and %s do not belong to the same table.''
            [Val (PStr ''rain''), Val (PStr ''month'')])"
    using clean_cso_x_axis_term
      [where ds = weather and pre = "[(PStr ''temp'', by_month)]"
         and sok = "PStr ''rain''" and sod = by_month and post = "[]"
         and e = "APIInputError ''%s and %s do not belong to the same table.''
            [Val (PStr ''rain''), Val (PStr ''month'')]"] t r
    by simp
  have none: "cso_entry weather (PStr ''temp'') (PDict []) =
     Inl (APIInputError ''Expecting a '_x_axis_term' for %s.'' [Val (PDict [])])"
    using clean_cso_x_axis_term
      [where ds = weather and sok = "PStr ''temp''" and sod = "PDict []" and sodd = "[]"]
      known
    by simp
  have same: "py_eq (PList [PInt 1, PInt 2]) (PList [PInt 1, PInt 2])"
    by simp
  have both: "clean_cso (PDict [(PStr ''temp'', by_month), (PStr ''month'', by_month)]) weather =
     Inr (PDict [(PStr ''temp'', by_month), (PStr ''month'', by_month)])"
    using clean_cso_x_axis_term
      [where ds = weather and pre = "[(PStr ''temp'', by_month)]"
         and sok = "PStr ''month''" and sod = by_month and post = "[]"
         and sodd = "[(PStr ''_x_axis_term'', PStr ''month'')]" and x = "PStr ''month''"
         and ?d1.0 = "PList [PInt 1, PInt 2]" and ?d2.0 = "PList [PInt 1, PInt 2]"]
      t month x same
    by (simp add: by_month_def)
  from one r two none both show ?thesis by simp
qed

text \<open>The claim as stated fails on two inputs. An entry that names its own series as
  the x-axis term, and not another one, is accepted. And two series of different
  sources, the books and the authors, pass as one table because their \<^verbatim>\<open>_data\<close>
  are equal.\<close>

theorem clean_cso_own_series_and_equal_data:
  "clean_cso (PDict [(PStr ''temp'', PDict [(PStr ''_x_axis_term'', PStr ''temp'')])]) weather =
     Inr (PDict [(PStr ''temp'', PDict [(PStr ''_x_axis_term'', PStr ''temp'')])]) \<and>
   books \<noteq> authors \<and>
   clean_cso (PDict [(PStr ''title'', PDict [(PStr ''_x_axis_term'', PStr ''name'')])])
     two_sources =
     Inr (PDict [(PStr ''title'', PDict [(PStr ''_x_axis_term'', PStr ''name'')])])"
  by code_simp

section \<open>The mutation of the caller's terms\<close>











section \<open>Last write wins\<close>


























subsection \<open>Loops that add entries\<close>
















subsection \<open>Pivot chart series options\<close>










subsection \<open>Chart series options\<close>












subsection \<open>The four converters\<close>



section \<open>The field-lookup validator: properties\<close>

lemma join_split_dunder: "join ''__'' (split_dunder s) = s"
proof (induction s rule: split_dunder.induct)
  case 1
  show ?case by simp
next
  case (2 c)
  show ?case by simp
next
  case (3 c d cs)
  show ?case
  proof (cases "c = CHR ''_'' \<and> d = CHR ''_''")
    case True
    with 3 show ?thesis by (cases "split_dunder cs") auto
  next
    case False
    show ?thesis
    proof (cases "split_dunder (d # cs)")
      case Nil
      with 3 False show ?thesis by auto
    next
      case (Cons w ws)
      with 3 False show ?thesis by (cases ws) auto
    qed
  qed
qed

lemma split_dunder_not_Nil [simp]: "split_dunder s \<noteq> []"
  by (induction s rule: split_dunder.induct) (auto split: list.splits)

lemma split_dunder_tail_is_split:
  "split_dunder s = t # rest \<Longrightarrow> rest \<noteq> [] \<Longrightarrow> \<exists>s'. split_dunder s' = rest"
proof (induction s arbitrary: t rest rule: split_dunder.induct)
  case 1
  then show ?case by simp
next
  case (2 c)
  then show ?case by simp
next
  case (3 c d cs)
  show ?case
  proof (cases "c = CHR ''_'' \<and> d = CHR ''_''")
    case True
    with "3.prems" show ?thesis by auto
  next
    case False
    obtain w ws where w: "split_dunder (d # cs) = w # ws"
      by (cases "split_dunder (d # cs)") auto
    with False "3.prems" have "rest = ws" by auto
    with "3.IH"(2) [OF False w] "3.prems"(2) show ?thesis by simp
  qed
qed

lemma split_dunder_join_tail:
  assumes "split_dunder s = t # r # rs"
  shows "split_dunder (join ''__'' (r # rs)) = r # rs"
proof -
  from split_dunder_tail_is_split [OF assms] obtain s' where "split_dunder s' = r # rs"
    by auto
  with join_split_dunder [of s'] show ?thesis by simp
qed

lemma set_field_names_loop:
  "set (field_names_loop R meta fs names) =
     set names \<union> {n. \<exists>f\<in>set fs. listed R meta f \<and> (n = name f \<or> attname f = Some n)}"
proof (induction fs arbitrary: names)
  case Nil
  show ?case by simp
next
  case (Cons f fs)
  show ?case
    by (cases "attname f") (auto simp: Cons.IH listed_def set_add_def Let_def)
qed

lemma validate_annotated:
  assumes "s \<in> set (annotations q) \<union> set (extra q)"
  shows "validate_field_lookup_term R model (PStr s) q = Inr (PStr s)"
  using assms by (subst validate_field_lookup_term.simps) auto

lemma validate_unknown_leading:
  assumes "s \<notin> set (annotations q) \<union> set (extra q)"
    "hd (split_dunder s) \<notin> set (get_all_field_names R (R m))"
  shows "validate_field_lookup_term R (Some m) (PStr s) q =
     Inl (APIInputError ''Field %r does not exist. Valid lookups are %s.''
            [Val (PStr (hd (split_dunder s))),
             Val (PStr (join '', '' (get_all_field_names R (R m))))])"
proof -
  obtain t rest where "split_dunder s = t # rest"
    by (cases "split_dunder s") auto
  with assms show ?thesis
    by (subst validate_field_lookup_term.simps) (auto simp: Let_def)
qed

text \<open>A term of one segment that names a field without a \<^verbatim>\<open>verbose_name\<close>
  attribute: the return statement raises \<^verbatim>\<open>AttributeError\<close>.\<close>

lemma validate_no_label:
  assumes "s \<notin> set (annotations q) \<union> set (extra q)" "split_dunder s = [t]"
    "t \<in> set (get_all_field_names R (R m))" "get_field (R m) t = Some fld"
    "verbose_name fld = None"
  shows "validate_field_lookup_term R (Some m) (PStr s) q = Inl (AttributeError ''verbose_name'')"
  using assms by (subst validate_field_lookup_term.simps) (simp add: Let_def)

text \<open>A path that resolves to a field with a label, walked by the validator. No
  trailing part of the path an annotation or extra name: the result is the label.\<close>

lemma validate_resolved:
  "split_dunder s = segs \<Longrightarrow> resolve R m segs = Some fld \<Longrightarrow> verbose_name fld = Some label \<Longrightarrow>
   \<forall>k\<in>{0..<length segs}. join ''__'' (drop k segs) \<notin> set (annotations q) \<union> set (extra q) \<Longrightarrow>
   validate_field_lookup_term R (Some m) (PStr s) q = Inr (PStr label)"
proof (induction R m segs arbitrary: s rule: resolve.induct)
  case (1 R m)
  then show ?case by simp
next
  case (2 R m t)
  from "2.prems"(1) join_split_dunder [of s] have s: "s = t" by simp
  from "2.prems"(4) have "join ''__'' (drop 0 [t]) \<notin> set (annotations q) \<union> set (extra q)"
    by simp
  with s have "s \<notin> set (annotations q) \<union> set (extra q)" by simp
  with "2.prems" show ?case
    by (subst validate_field_lookup_term.simps) (auto simp: Let_def split: if_splits)
next
  case (3 R m t r rs)
  from "3.prems"(1) join_split_dunder [of s] have s: "s = join ''__'' (t # r # rs)" by simp
  have "0 \<in> {0..<length (t # r # rs)}" by simp
  with "3.prems"(4)
  have "join ''__'' (drop 0 (t # r # rs)) \<notin> set (annotations q) \<union> set (extra q)"
    by blast
  with s have no: "s \<notin> set (annotations q) \<union> set (extra q)" by simp
  from "3.prems"(2) have tin: "t \<in> set (get_all_field_names R (R m))"
    by (simp split: if_splits)
  with "3.prems"(2) obtain f where f: "get_field (R m) t = Some f"
    by (cases "get_field (R m) t") auto
  let ?m' = "if \<not> auto_created f \<or> concrete f then related_model f else Some m"
  have tailsplit: "split_dunder (join ''__'' (r # rs)) = r # rs"
    using split_dunder_join_tail [OF "3.prems"(1)] .
  have unfold: "validate_field_lookup_term R (Some m) (PStr s) q =
      validate_field_lookup_term R ?m' (PStr (join ''__'' (r # rs))) q"
    using no "3.prems"(1) tin f
    by (subst validate_field_lookup_term.simps) (simp add: Let_def)
  have tail: "\<forall>k\<in>{0..<length (r # rs)}.
      join ''__'' (drop k (r # rs)) \<notin> set (annotations q) \<union> set (extra q)"
  proof
    fix k
    assume "k \<in> {0..<length (r # rs)}"
    then have "Suc k \<in> {0..<length (t # r # rs)}" by simp
    with "3.prems"(4)
    have "join ''__'' (drop (Suc k) (t # r # rs)) \<notin> set (annotations q) \<union> set (extra q)"
      by blast
    then show "join ''__'' (drop k (r # rs)) \<notin> set (annotations q) \<union> set (extra q)"
      by simp
  qed
  have "validate_field_lookup_term R ?m' (PStr (join ''__'' (r # rs))) q = Inr (PStr label)"
  proof (cases "\<not> auto_created f \<or> concrete f")
    case True
    with "3.prems"(2) tin f obtain m' where m': "related_model f = Some m'"
      and res: "resolve R m' (r # rs) = Some fld"
      by (cases "related_model f") auto
    from "3.IH"(1) [OF tin f True m' tailsplit res "3.prems"(3) tail] True m'
    show ?thesis by simp
  next
    case False
    with "3.prems"(2) tin f have res: "resolve R m (r # rs) = Some fld" by auto
    from "3.IH"(2) [OF tin f False tailsplit res "3.prems"(3) tail] False
    show ?thesis by simp
  qed
  with unfold show ?case by simp
qed

text \<open>
  What the validator does as the specification says. A term among the annotation or
  extra names of the query is returned as it is. A term that resolves to a field with a
  label, no trailing part of it an annotation or extra name, gives the label. A term that
  is no annotation or extra name and whose leading segment is not among the field names
  of the model raises the input error that lists these names; they are the names and
  attribute names of the fields that \<^verbatim>\<open>get_all_field_names\<close> does not skip.
\<close>

lemma validate_field_lookup_term_cases:
  "(s \<in> set (annotations q) \<union> set (extra q) \<longrightarrow>
      validate_field_lookup_term R model (PStr s) q = Inr (PStr s)) \<and>
   (resolve R m (split_dunder s) = Some fld \<and> verbose_name fld = Some label \<and>
    (\<forall>k\<in>{0..<length (split_dunder s)}.
       join ''__'' (drop k (split_dunder s)) \<notin> set (annotations q) \<union> set (extra q)) \<longrightarrow>
      validate_field_lookup_term R (Some m) (PStr s) q = Inr (PStr label)) \<and>
   (s \<notin> set (annotations q) \<union> set (extra q) \<and>
    hd (split_dunder s) \<notin> set (get_all_field_names R (R m)) \<longrightarrow>
      validate_field_lookup_term R (Some m) (PStr s) q =
        Inl (APIInputError ''Field %r does not exist. Valid lookups are %s.''
               [Val (PStr (hd (split_dunder s))),
                Val (PStr (join '', '' (get_all_field_names R (R m))))])) \<and>
   set (get_all_field_names R meta) =
     {n. \<exists>f\<in>set (get_fields meta). listed R meta f \<and> (n = name f \<or> attname f = Some n)}"
proof (intro conjI impI)
  assume "s \<in> set (annotations q) \<union> set (extra q)"
  then show "validate_field_lookup_term R model (PStr s) q = Inr (PStr s)"
    by (rule validate_annotated)
next
  assume "resolve R m (split_dunder s) = Some fld \<and> verbose_name fld = Some label \<and>
    (\<forall>k\<in>{0..<length (split_dunder s)}.
       join ''__'' (drop k (split_dunder s)) \<notin> set (annotations q) \<union> set (extra q))"
  then show "validate_field_lookup_term R (Some m) (PStr s) q = Inr (PStr label)"
    using validate_resolved [of s "split_dunder s" R m fld label q] by blast
next
  assume "s \<notin> set (annotations q) \<union> set (extra q) \<and>
    hd (split_dunder s) \<notin> set (get_all_field_names R (R m))"
  then show "validate_field_lookup_term R (Some m) (PStr s) q =
        Inl (APIInputError ''Field %r does not exist. Valid lookups are %s.''
               [Val (PStr (hd (split_dunder s))),
                Val (PStr (join '', '' (get_all_field_names R (R m))))])"
    using validate_unknown_leading by blast
next
  show "set (get_all_field_names R meta) =
     {n. \<exists>f\<in>set (get_fields meta). listed R meta f \<and> (n = name f \<or> attname f = Some n)}"
    by (simp add: get_all_field_names_def set_field_names_loop)
qed

text \<open>
  Claim C1. The validator is to return without error, with the display label of the
  final field, whenever every segment of the term resolves through the schema of the
  model. The term \<^verbatim>\<open>book\<close> on the model of the authors is the reverse relation of
  the author of a book: \<^verbatim>\<open>get_all_field_names\<close> lists it, and the path resolves to
  it. The relation object has no \<^verbatim>\<open>verbose_name\<close>, and the validator, which reads
  the attribute with no guard, raises \<^verbatim>\<open>AttributeError\<close>.
\<close>

theorem validate_reverse_relation:
  "''book'' \<in> set (get_all_field_names library (library ''Author'')) \<and>
   resolve library ''Author'' (split_dunder ''book'') = Some books_of_author \<and>
   validate_field_lookup_term library (Some ''Author'') (PStr ''book'') (qs_query books) =
     Inl (AttributeError ''verbose_name'')"
  by code_simp

text \<open>
  A second departure from the claim, and from the docstring, which promises the verbose
  name of a valid field: the test for annotation and extra names is made again on what
  is left of the path at every step. On a query that has an annotation \<^verbatim>\<open>name\<close>,
  the term \<^verbatim>\<open>author__name\<close> resolves to the name of the author, whose label is
  \<^verbatim>\<open>full name\<close>, and the validator returns \<^verbatim>\<open>name\<close>.
\<close>

lemma validate_trailing_annotation:
  "resolve library ''Book'' (split_dunder ''author__name'') =
     Some (mk_field ''name'' (Some ''name'') ''Author'' ''full name'') \<and>
   verbose_name (mk_field ''name'' (Some ''name'') ''Author'' ''full name'') =
     Some ''full name'' \<and>
   validate_field_lookup_term library (Some ''Book'') (PStr ''author__name'')
     (qs_query named_books) = Inr (PStr ''name'') \<and>
   validate_field_lookup_term library (Some ''Book'') (PStr ''author__name'')
     (qs_query books) = Inr (PStr ''full name'')"
  by code_simp

end
